theory Spec2Isabelle
  imports Main "HOL-Library.Sublist"
begin

section \<open>Values shared by the three modules\<close>

text \<open>
  JSON values, as Python's \<open>json\<close> module and the tool protocol exchange them. A Python
  \<open>dict\<close> is \<open>JObj\<close> with its items in insertion order, \<open>None\<close> is \<open>JNull\<close>.
\<close>

datatype json =
    JNull
  | JBool bool
  | JNum int
  | JStr string
  | JList "json list"
  | JObj "(string \<times> json) list"

text \<open>\<open>isinstance(v, dict)\<close>.\<close>

fun isinstance_dict :: "json \<Rightarrow> bool" where
  "isinstance_dict (JObj items) = True"
| "isinstance_dict v = False"

text \<open>\<open>d.get(key)\<close> on a value: \<open>None\<close> when the value is no dict or has no such key.\<close>

fun dict_get :: "json \<Rightarrow> string \<Rightarrow> json option" where
  "dict_get (JObj items) key = map_of items key"
| "dict_get v key = None"

text \<open>
  The exceptions the source names in its handlers, and those its calls raise.
  \<open>JSONDecodeError\<close> is the one class \<open>except json.JSONDecodeError\<close> catches (a plain
  \<open>ValueError\<close> is not one). \<open>CancelledError\<close> derives from
  \<open>BaseException\<close> only (Python 3.8 and later), so \<open>except Exception\<close> does not catch it;
  every other class here derives from \<open>Exception\<close> (\<open>APIError\<close> covers its subclass
  \<open>AuthenticationError\<close>). \<open>Exception msg\<close> stands for any
  further subclass of \<open>Exception\<close> whose \<open>str()\<close> is \<open>msg\<close>.
\<close>

datatype exn =
    FileNotFoundError string
  | ClosedResourceError
  | APIError string
  | ValueError string
  | JSONDecodeError string
  | IndexError string
  | AttributeError string
  | Exception string
  | CancelledError

fun isinstance_Exception :: "exn \<Rightarrow> bool" where
  "isinstance_Exception CancelledError = False"
| "isinstance_Exception e = True"

fun isinstance_JSONDecodeError :: "exn \<Rightarrow> bool" where
  "isinstance_JSONDecodeError (JSONDecodeError msg) = True"
| "isinstance_JSONDecodeError e = False"

fun str_exn :: "exn \<Rightarrow> string" where
  "str_exn (FileNotFoundError msg) = msg"
| "str_exn ClosedResourceError = []"
| "str_exn (APIError msg) = msg"
| "str_exn (ValueError msg) = msg"
| "str_exn (JSONDecodeError msg) = msg"
| "str_exn (AttributeError msg) = msg"
| "str_exn (IndexError msg) = msg"
| "str_exn (Exception msg) = msg"
| "str_exn CancelledError = []"

text \<open>Python truthiness of an optional string and of an optional list.\<close>

fun truthy_str :: "string option \<Rightarrow> bool" where
  "truthy_str None = False"
| "truthy_str (Some text) = (text \<noteq> [])"

fun truthy_list :: "'a list option \<Rightarrow> bool" where
  "truthy_list None = False"
| "truthy_list (Some xs) = (xs \<noteq> [])"

section \<open>Data model\<close>

text \<open>
  A tool descriptor as the tool session lists it. \<open>inputSchema = None\<close> is a descriptor
  without that attribute; \<open>Some JNull\<close> is the attribute set to \<open>None\<close>.
\<close>

record tool =
  tool_name :: string
  tool_description :: "string option"
  inputSchema :: "json option"

text \<open>
  A tool-call request of an assistant response: \<open>tool_call.id\<close>,
  \<open>tool_call.function.name\<close> and \<open>tool_call.function.arguments\<close> (the raw payload).
\<close>

record tool_call =
  call_id :: string
  function_name :: string
  function_arguments :: string

text \<open>
  What a dict holds under a key: nothing (the key is absent), \<open>None\<close>, or a value.
\<close>

datatype 'a binding = Absent | Null | Bound 'a

text \<open>\<open>key in d and d[key]\<close> for a key that holds a list.\<close>

fun truthy_binding :: "'a list binding \<Rightarrow> bool" where
  "truthy_binding (Bound xs) = (xs \<noteq> [])"
| "truthy_binding b = False"

text \<open>The binding of a key that is left out when the value is \<open>None\<close>.\<close>

fun binding_of :: "'a option \<Rightarrow> 'a binding" where
  "binding_of None = Absent"
| "binding_of (Some v) = Bound v"

text \<open>
  A message of the conversation history: a Python dict. Its keys \<open>role\<close>, \<open>content\<close>,
  \<open>tool_calls\<close>, \<open>tool_call_id\<close> and \<open>name\<close> are fields; \<open>other_items\<close> holds every
  other item, in the order of the keys. Two messages are equal exactly when the dicts
  are (\<open>==\<close> of Python), since an absent key and a key bound to \<open>None\<close> differ.
\<close>

record message =
  role :: string
  content :: "string binding"
  tool_calls :: "tool_call list binding"
  tool_call_id :: "string binding"
  name :: "string binding"
  other_items :: "(string \<times> json) list"

text \<open>
  What \<open>get_completion\<close> hands back: the library's message object (it has \<open>model_dump\<close>),
  the \<open>SimpleNamespace\<close> built on failure, or an object without a \<open>role\<close> attribute
  (\<open>Opaque\<close>, carrying its \<open>str()\<close>). The library's object records which of its fields
  were set: \<open>content\<close> and \<open>tool_calls\<close> are \<open>Absent\<close> when never set (they read as
  \<open>None\<close>), \<open>Null\<close> when set to \<open>None\<close>; the last component holds the other fields that
  were set, in the order of their names.
\<close>

datatype response_message =
    ChatCompletionMessage string "string binding" "tool_call list binding"
      "(string \<times> json) list"
  | SimpleNamespace string "string option" "tool_call list option"
  | Opaque string

text \<open>Reading an attribute that may be unset or \<open>None\<close>.\<close>

fun value_of :: "'a binding \<Rightarrow> 'a option" where
  "value_of (Bound v) = Some v"
| "value_of b = None"

fun hasattr_role :: "response_message \<Rightarrow> bool" where
  "hasattr_role (Opaque text) = False"
| "hasattr_role r = True"

fun hasattr_model_dump :: "response_message \<Rightarrow> bool" where
  "hasattr_model_dump (ChatCompletionMessage r c tcs others) = True"
| "hasattr_model_dump r = False"

text \<open>\<open>getattr(response_message, 'role', 'assistant')\<close> and its two siblings.\<close>

fun getattr_role :: "response_message \<Rightarrow> string" where
  "getattr_role (ChatCompletionMessage r c tcs others) = r"
| "getattr_role (SimpleNamespace r c tcs) = r"
| "getattr_role (Opaque text) = ''assistant''"

fun getattr_content :: "response_message \<Rightarrow> string option" where
  "getattr_content (ChatCompletionMessage r c tcs others) = value_of c"
| "getattr_content (SimpleNamespace r c tcs) = c"
| "getattr_content (Opaque text) = None"

fun getattr_tool_calls :: "response_message \<Rightarrow> tool_call list option" where
  "getattr_tool_calls (ChatCompletionMessage r c tcs others) = value_of tcs"
| "getattr_tool_calls (SimpleNamespace r c tcs) = tcs"
| "getattr_tool_calls (Opaque text) = None"

section \<open>llm\_handler.py\<close>

record azure_client =
  api_key :: string
  api_version :: string
  azure_endpoint :: string

record llm_handler =
  llm :: "azure_client option"

text \<open>\<open>LLMHandler.__init__\<close>.\<close>

definition LLMHandler :: llm_handler where
  "LLMHandler = \<lparr>llm = None\<rparr>"

text \<open>
  \<open>initialize\<close>: the new handler, the success flag and the message. \<open>AzureOpenAI\<close> is
  what the client's constructor does with its arguments (it may raise). The \<open>print\<close>
  calls go to the console and are left out, here and below. An exception that no handler
  catches leaves the function (\<open>Inl\<close>); \<open>self.llm\<close> then keeps its value.
\<close>

definition initialize ::
  "string option \<Rightarrow> string option \<Rightarrow> (azure_client \<Rightarrow> exn + azure_client) \<Rightarrow> llm_handler
    \<Rightarrow> exn + (llm_handler \<times> bool \<times> string)" where
  "initialize key endpoint AzureOpenAI h =
     (if \<not> truthy_str key \<or> \<not> truthy_str endpoint
      then Inr (h\<lparr>llm := None\<rparr>, False, ''Missing API key or endpoint'')
      else
        (case AzureOpenAI \<lparr>api_key = the key, api_version = ''2024-08-01-preview'',
                            azure_endpoint = the endpoint\<rparr> of
           Inr client \<Rightarrow> Inr (h\<lparr>llm := Some client\<rparr>, True, ''Azure OpenAI client initialized.'')
         | Inl (APIError msg) \<Rightarrow>
             Inr (h\<lparr>llm := None\<rparr>, False, ''Error initializing Azure OpenAI client: '' @ msg)
         | Inl e \<Rightarrow>
             if isinstance_Exception e
             then Inr (h\<lparr>llm := None\<rparr>, False,
                       ''Unexpected error initializing Azure OpenAI client: '' @ str_exn e)
             else Inl e))"

definition is_initialized :: "llm_handler \<Rightarrow> bool" where
  "is_initialized h = (llm h \<noteq> None)"

text \<open>The fallback schema \<open>{"type": "object", "properties": {}}\<close>.\<close>

definition empty_object_schema :: json where
  "empty_object_schema = JObj [(''type'', JStr ''object''), (''properties'', JObj [])]"

text \<open>The body of the loop of \<open>format_tools_for_openai\<close>: the entry built for one tool.\<close>

definition openai_tool :: "tool \<Rightarrow> json" where
  "openai_tool t =
     (let parameters = (case inputSchema t of None \<Rightarrow> empty_object_schema | Some p \<Rightarrow> p);
          parameters = (if \<not> isinstance_dict parameters then empty_object_schema else parameters)
      in JObj [(''type'', JStr ''function''),
               (''function'',
                JObj [(''name'', JStr (tool_name t)),
                      (''description'',
                       (case tool_description t of None \<Rightarrow> JNull | Some d \<Rightarrow> JStr d)),
                      (''parameters'', parameters)])])"

text \<open>The loop itself: \<open>openai_tools\<close> is the list being appended to.\<close>

fun format_loop :: "tool list \<Rightarrow> json list \<Rightarrow> json list" where
  "format_loop [] openai_tools = openai_tools"
| "format_loop (t # rest) openai_tools = format_loop rest (openai_tools @ [openai_tool t])"

text \<open>\<open>mcp_tools\<close> is \<open>None\<close> or a list; both \<open>None\<close> and the empty list are falsy.\<close>

definition format_tools_for_openai :: "tool list option \<Rightarrow> json list" where
  "format_tools_for_openai mcp_tools =
     (if \<not> truthy_list mcp_tools then [] else format_loop (the mcp_tools) [])"

text \<open>
  The request \<open>get_completion\<close> sends: with tools, \<open>tool_choice\<close> is \<open>"auto"\<close>; without,
  the temperature is 0.7 and \<open>max_tokens\<close> is 800.
\<close>

datatype request =
    WithTools string "message list" "json list"
  | Plain string "message list"

text \<open>The endpoint's reply: \<open>response.choices\<close>, each choice holding its message.\<close>

record completion =
  choices :: "response_message list"

text \<open>
  \<open>get_completion\<close>. \<open>create\<close> is \<open>self.llm.chat.completions.create\<close>: the reply to a
  request, or the exception it raises. \<open>response.choices[0]\<close> of an empty list raises
  \<open>IndexError\<close> inside the \<open>try\<close>. The result: the requests sent (none or one), and the
  message returned, or \<open>Inl\<close> for an exception that leaves the function.
\<close>

definition completion_request :: "string \<Rightarrow> message list \<Rightarrow> json list option \<Rightarrow> request" where
  "completion_request deployment msgs tools =
     (if truthy_list tools then WithTools deployment msgs (the tools)
      else Plain deployment msgs)"

definition get_completion ::
  "llm_handler \<Rightarrow> (request \<Rightarrow> exn + completion) \<Rightarrow> string \<Rightarrow> message list \<Rightarrow> json list option
    \<Rightarrow> request list \<times> (exn + response_message)" where
  "get_completion h create deployment msgs tools =
     (if llm h = None then ([], Inl (ValueError ''LLM client is not initialized.''))
      else
        (let attempt =
               (case create (completion_request deployment msgs tools) of
                  Inl e \<Rightarrow> Inl e
                | Inr response \<Rightarrow>
                    (case choices response of
                       [] \<Rightarrow> Inl (IndexError ''list index out of range'')
                     | c # cs \<Rightarrow> Inr c))
         in ([completion_request deployment msgs tools],
             (case attempt of
                Inr m \<Rightarrow> Inr m
              | Inl e \<Rightarrow>
                  if isinstance_Exception e
                  then Inr (SimpleNamespace ''assistant''
                              (Some (''Error communicating with LLM: '' @ str_exn e)) None)
                  else Inl e))))"

section \<open>The library functions the modules call\<close>

text \<open>
  \<open>json.loads\<close> (the value, or the exception it raises: \<open>JSONDecodeError\<close> for a
  malformed document, \<open>ValueError\<close> for an integer of too many digits,
  \<open>RecursionError\<close> for too deep a nesting), \<open>json.dumps\<close>,
  \<open>json.dumps(..., indent=2)\<close>, \<open>traceback.format_exc()\<close> for the exception being
  handled, and whether the module \<open>mcp.types\<close> has an attribute \<open>JsonContent\<close>
  (the released library has none). They are parameters: the properties below hold
  whatever they are.
\<close>

record runtime =
  json_loads :: "string \<Rightarrow> exn + json"
  json_dumps :: "json \<Rightarrow> string"
  json_dumps_indent :: "json \<Rightarrow> string"
  format_exc :: "exn \<Rightarrow> string"
  types_has_JsonContent :: bool

section \<open>mcp\_handler.py\<close>

text \<open>
  The background task of \<open>asyncio\<close>: created and not yet run, suspended inside the runner's
  \<open>try\<close> block, or done (finished or cancelled).
\<close>

datatype task = NotStarted | Running | Finished | Cancelled

fun task_done :: "task \<Rightarrow> bool" where
  "task_done Finished = True"
| "task_done Cancelled = True"
| "task_done t = False"

record client_session =
  is_closed :: bool

record mcp_handler =
  session :: "client_session option"
  connection_task :: "task option"

text \<open>
  What a method of the handler does to the outside, in order: a call
  \<open>_update_callback(message, role)\<close> (\<open>_log\<close> is that call, with role \<open>"system"\<close> unless
  given), and the two requests it sends over the session.
\<close>

datatype effect =
    Update string string
  | SessionListTools
  | SessionCallTool string json

definition MCPHandler :: mcp_handler where
  "MCPHandler = \<lparr>session = None, connection_task = None\<rparr>"

definition is_connected :: "mcp_handler \<Rightarrow> bool" where
  "is_connected h =
     (session h \<noteq> None \<and> connection_task h \<noteq> None \<and> \<not> task_done (the (connection_task h)))"

text \<open>
  \<open>_mcp_session_runner\<close> from its start to the handshake \<open>await session.initialize()\<close>,
  when the transport and the session open without an exception.
\<close>

definition mcp_session_runner_to_handshake ::
  "string \<Rightarrow> client_session \<Rightarrow> mcp_handler \<Rightarrow> effect list \<times> mcp_handler" where
  "mcp_session_runner_to_handshake server_script_path s h =
     ([Update (''Attempting to start MCP server: '' @ server_script_path) ''system'',
       Update (''Executing command: uv run --with mcp mcp run '' @ server_script_path) ''system'',
       Update ''MCP transport initialized.'' ''system'',
       Update ''MCP session created.'' ''system''],
      h\<lparr>session := Some s, connection_task := Some Running\<rparr>)"

text \<open>
  The handlers and the \<open>finally\<close> clause of \<open>_mcp_session_runner\<close>, for the exception \<open>e\<close>
  that ends its \<open>try\<close> block (the block holds \<open>while True\<close>, so it never ends without
  one). The second component is how the task ends: \<open>None\<close> when a handler caught \<open>e\<close>
  and the coroutine returned, \<open>Some e\<close> when \<open>e\<close> left it.
\<close>

definition mcp_session_runner_exit ::
  "runtime \<Rightarrow> exn \<Rightarrow> mcp_handler \<Rightarrow> effect list \<times> exn option \<times> mcp_handler" where
  "mcp_session_runner_exit rt e h =
     ((case e of
         FileNotFoundError msg \<Rightarrow>
           [Update (''Error: '' @ [CHR 0x27] @ ''uv'' @ [CHR 0x27] @
                    '' command not found. Make sure uv is installed and in your PATH.'')
              ''system'']
       | ClosedResourceError \<Rightarrow>
           [Update ''MCP connection was closed (likely by the server).'' ''system'']
       | CancelledError \<Rightarrow> []
       | _ \<Rightarrow>
           [Update (''MCP connection error: '' @ str_exn e) ''system'',
            Update (''Traceback: '' @ format_exc rt e) ''system''])
      @ [Update ''MCP connection closed.'' ''system'', Update ''Disconnected'' ''status''],
      (if isinstance_Exception e then None else Some e),
      h\<lparr>session := None, connection_task := None\<rparr>)"

text \<open>
  \<open>connect\<close>: \<open>asyncio.create_task\<close> makes the task, which has not run yet when
  \<open>connect\<close> returns; \<open>_handle_connection_task_completion\<close> is registered on it.
\<close>

definition connect :: "string \<Rightarrow> mcp_handler \<Rightarrow> effect list \<times> mcp_handler" where
  "connect server_script_path h =
     (if is_connected h \<or> connection_task h \<noteq> None
      then ([Update ''Already connected or connection attempt in progress.'' ''system''], h)
      else ([Update ''Connecting...'' ''status''], h\<lparr>connection_task := Some NotStarted\<rparr>))"

text \<open>
  \<open>_handle_connection_task_completion\<close>, for how the task ended (\<open>task.result()\<close> returns
  or raises that exception).
\<close>

definition handle_connection_task_completion ::
  "exn option \<Rightarrow> mcp_handler \<Rightarrow> effect list \<times> mcp_handler" where
  "handle_connection_task_completion ended h =
     ((case ended of
         None \<Rightarrow> [Update ''MCP connection task finished normally.'' ''system'']
       | Some CancelledError \<Rightarrow> [Update ''MCP connection task was cancelled.'' ''system'']
       | Some e \<Rightarrow> [Update (''MCP connection task failed: '' @ str_exn e) ''system''])
      @ [Update ''Disconnected'' ''status''],
      h\<lparr>session := None, connection_task := None\<rparr>)"

text \<open>
  \<open>self._connection_task.cancel()\<close> followed by \<open>await self._connection_task\<close>, as
  \<open>asyncio\<close> runs them: the event loop throws \<open>CancelledError\<close> into the task. A task
  that has not started ends at once, cancelled, before its \<open>try\<close> block is entered. A task
  suspended inside the block leaves it by an exception \<open>cause\<close> (the \<open>CancelledError\<close>
  itself, or what a context manager raises while closing), so its handlers and \<open>finally\<close>
  clause run. Then the task's done-callbacks run in the order they were added: the one
  \<open>connect\<close> registered, and after it the wake-up of the awaiting \<open>disconnect\<close>.
  The result: the effects, how the task ended, the handler.
\<close>

definition cancel_and_await ::
  "runtime \<Rightarrow> exn \<Rightarrow> mcp_handler \<Rightarrow> effect list \<times> exn option \<times> mcp_handler" where
  "cancel_and_await rt cause h =
     (let (fx_runner, ended, h1) =
            (if connection_task h = Some NotStarted then ([], Some CancelledError, h)
             else mcp_session_runner_exit rt cause h);
          (fx_callback, h2) = handle_connection_task_completion ended h1
      in (fx_runner @ fx_callback, ended, h2))"

text \<open>
  \<open>disconnect\<close>. The branch on \<open>self.session.is_closed\<close> holds only \<open>pass\<close>. Its test
  reads the attribute only when a handle is still set there, that is when no task was
  running (a cancelled task clears the handle before). The session of the model has
  the attribute, as the source takes it to have; on a session object without it the
  source raises \<open>AttributeError\<close> at that test, which this function does not cover.
\<close>

definition disconnect :: "runtime \<Rightarrow> exn \<Rightarrow> mcp_handler \<Rightarrow> effect list \<times> mcp_handler" where
  "disconnect rt cause h =
     (let (fx, h1) =
            (if connection_task h \<noteq> None \<and> \<not> task_done (the (connection_task h))
             then
               (let (fx_task, ended, h') = cancel_and_await rt cause h
                in (fx_task @
                    (if ended = Some CancelledError
                     then [Update ''MCP connection cancelled.'' ''system''] else []),
                    h'))
             else ([], h))
      in (fx @ [Update ''Disconnected'' ''status''],
          h1\<lparr>session := None, connection_task := None\<rparr>))"

text \<open>
  \<open>list_tools\<close>. \<open>reply\<close> is what \<open>await self.session.list_tools()\<close> gives: the tools,
  or the exception it raises. The result is \<open>None\<close> or the list; \<open>Inl\<close> is an exception
  that leaves the method.
\<close>

definition tools_dict_for_log :: "tool list \<Rightarrow> json" where
  "tools_dict_for_log tools_list =
     JObj [(''tools'',
            JList (map (\<lambda>t. JObj [(''name'', JStr (tool_name t)),
                                   (''description'',
                                    (case tool_description t of
                                       None \<Rightarrow> JNull | Some d \<Rightarrow> JStr d)),
                                   (''parameters'',
                                    (case inputSchema t of None \<Rightarrow> JNull | Some p \<Rightarrow> p))])
                        tools_list))]"

definition list_tools ::
  "runtime \<Rightarrow> mcp_handler \<Rightarrow> (exn + tool list) \<Rightarrow> bool \<Rightarrow> effect list \<times> (exn + tool list option)" where
  "list_tools rt h reply log =
     (if \<not> is_connected h
      then ([Update ''Not connected to MCP server.'' ''system''], Inr None)
      else
        (case reply of
           Inr tools_list \<Rightarrow>
             (SessionListTools #
              (if log
               then [Update (''Available tools:\<newline>'' @
                             json_dumps_indent rt (tools_dict_for_log tools_list)) ''system'']
               else []),
              Inr (Some tools_list))
         | Inl e \<Rightarrow>
             if isinstance_Exception e
             then ([SessionListTools,
                    Update (''Error listing tools: '' @ str_exn e) ''system'',
                    Update (format_exc rt e) ''system''],
                   Inr None)
             else ([SessionListTools], Inl e)))"

text \<open>
  The items of a tool result, by the classes \<open>call_tool\<close> tests for: text, JSON, an image
  (its \<open>format\<close> attribute, when the object has one), anything else (its \<open>str()\<close>).
\<close>

datatype content_item =
    TextContent string
  | JsonContent json
  | ImageContent "string option"
  | OtherContent string

text \<open>
  The body of the loop of \<open>call_tool\<close>: the entry for one item, or the exception raised
  on the way. For an item that is not text the second test reads \<open>types.JsonContent\<close>,
  which raises \<open>AttributeError\<close> when the module has no such attribute; the third
  branch reads \<open>item.format\<close>, which raises it when the image has no such attribute.
\<close>

definition missing_JsonContent :: exn where
  "missing_JsonContent =
     AttributeError
       (''module '' @ [CHR 0x27] @ ''mcp.types'' @ [CHR 0x27] @
        '' has no attribute '' @ [CHR 0x27] @ ''JsonContent'' @ [CHR 0x27])"

definition serializable_item :: "runtime \<Rightarrow> content_item \<Rightarrow> exn + json" where
  "serializable_item rt item =
     (case item of
        TextContent text \<Rightarrow> Inr (JObj [(''type'', JStr ''text''), (''text'', JStr text)])
      | _ \<Rightarrow>
          if \<not> types_has_JsonContent rt
          then Inl missing_JsonContent
          else
            (case item of
               JsonContent json_value \<Rightarrow>
                 Inr (JObj [(''type'', JStr ''json''), (''json'', json_value)])
             | ImageContent None \<Rightarrow>
                 Inl (AttributeError
                        ([CHR 0x27] @ ''ImageContent'' @ [CHR 0x27] @
                         '' object has no attribute '' @ [CHR 0x27] @ ''format'' @ [CHR 0x27]))
             | ImageContent (Some fmt) \<Rightarrow>
                 Inr (JObj [(''type'', JStr ''image''), (''format'', JStr fmt),
                            (''description'', JStr ''Image data (not serialized)'')])
             | OtherContent text \<Rightarrow>
                 Inr (JObj [(''type'', JStr ''unknown''), (''content'', JStr text)])
             | TextContent text \<Rightarrow>
                 Inr (JObj [(''type'', JStr ''text''), (''text'', JStr text)])))"

text \<open>The loop of \<open>call_tool\<close> over \<open>tool_result.content\<close>; it ends at the first exception.\<close>

fun serialize_loop :: "runtime \<Rightarrow> content_item list \<Rightarrow> json list \<Rightarrow> exn + json list" where
  "serialize_loop rt [] serializable_content = Inr serializable_content"
| "serialize_loop rt (item # rest) serializable_content =
     (case serializable_item rt item of
        Inl ex \<Rightarrow> Inl ex
      | Inr entry \<Rightarrow> serialize_loop rt rest (serializable_content @ [entry]))"

text \<open>The payload \<open>{"error": message}\<close>.\<close>

definition error_payload :: "string \<Rightarrow> json" where
  "error_payload msg = JObj [(''error'', JStr msg)]"

text \<open>
  The \<open>try\<close> block of \<open>call_tool\<close>: the call over the session and the processing of its
  result. \<open>reply\<close> is what \<open>await self.session.call_tool(tool_name, arguments)\<close> gives: the
  content of the result, or the exception it raises. \<open>Inl\<close> is an exception raised
  anywhere in the block.
\<close>

definition call_tool_attempt :: "runtime \<Rightarrow> (exn + content_item list) \<Rightarrow> exn + json" where
  "call_tool_attempt rt reply =
     (case reply of
        Inl ex \<Rightarrow> Inl ex
      | Inr result_content \<Rightarrow>
          (case serialize_loop rt result_content [] of
             Inl ex \<Rightarrow> Inl ex
           | Inr serializable_content \<Rightarrow> Inr (JList serializable_content)))"

text \<open>
  \<open>call_tool\<close>: the test of the connection, the \<open>try\<close> block and its handler. \<open>Inl\<close> is an
  exception that leaves the method.
\<close>

definition call_tool ::
  "runtime \<Rightarrow> mcp_handler \<Rightarrow> (exn + content_item list) \<Rightarrow> string \<Rightarrow> json
    \<Rightarrow> effect list \<times> (exn + json)" where
  "call_tool rt h reply tool arguments =
     (if \<not> is_connected h
      then ([Update ''Not connected to MCP server.'' ''system''],
            Inr (error_payload ''Not connected to MCP server.''))
      else
        (case call_tool_attempt rt reply of
           Inr serializable_content \<Rightarrow>
             ([SessionCallTool tool arguments], Inr serializable_content)
         | Inl e \<Rightarrow>
             if isinstance_Exception e
             then ([SessionCallTool tool arguments,
                    Update (''Error calling tool '' @ [CHR 0x27] @ tool @ [CHR 0x27] @ '': '' @
                            str_exn e) ''system'',
                    Update (format_exc rt e) ''system''],
                   Inr (error_payload (str_exn e)))
             else ([SessionCallTool tool arguments], Inl e)))"

section \<open>controller.py\<close>

definition SYSTEM_PROMPT :: string where
  "SYSTEM_PROMPT =
     ''You are '' @ [CHR 0x27] @ ''Assistant'' @ [CHR 0x27] @ '', a helpful, conversational AI assistant interacting with a user via a chat interface.\<newline>'' @
     ''Your goal is to provide accurate information and complete tasks as requested.\<newline>'' @
     ''\<newline>'' @
     ''**Core Capabilities:**\<newline>'' @
     ''1.  Engage in conversation and answer general questions using your internal knowledge.\<newline>'' @
     ''2.  Utilize available tools to fetch specific, real-time, or calculated information when necessary.\<newline>'' @
     ''\<newline>'' @
     ''**Tool Usage Policy:**\<newline>'' @
     ''* Analyze the user'' @ [CHR 0x27] @ ''s request to determine if it requires capabilities beyond your internal knowledge (e.g., calculating current travel time between specific locations).\<newline>'' @
     ''* If a tool is appropriate:\<newline>'' @
     ''    * Identify the correct tool (e.g., `get_travel_time`).\<newline>'' @
     ''    * Extract all required parameters accurately from the user'' @ [CHR 0x27] @ ''s message (e.g., for `get_travel_time`, you need `origin`, `destination`, and `mode`).\<newline>'' @
     ''    * If essential parameters are missing, ask the user clarifying questions *before* attempting to use the tool.\<newline>'' @
     ''    * Once the tool provides a result, synthesize that information into a friendly, easy-to-understand response for the user. Do not just output the raw tool result unless specifically asked.\<newline>'' @
     ''* If the request can be fully answered without a tool, do so directly.\<newline>'' @
     ''\<newline>'' @
     ''**Response Guidelines:**\<newline>'' @
     ''* Be polite, helpful, and clear.\<newline>'' @
     ''* Keep responses concise but informative.\<newline>'' @
     ''* Acknowledge the use of a tool subtly if it adds clarity (e.g., '' @ [CHR 0x22] @ ''According to the travel time tool...'' @ [CHR 0x22] @ '').\<newline>'' @
     ''* Do not invent information or pretend to have capabilities you lack.\<newline>''"

text \<open>
  What the controller does to the outside, in order: \<open>gui.update_output(text, role)\<close>,
  \<open>gui.update_status(text)\<close>, a request to the completion endpoint, the two requests of
  the tool session, and \<open>asyncio.create_task(self._process_llm_interaction())\<close>.
\<close>

datatype event =
    Output string string
  | Status string
  | Create request
  | ListTools
  | CallTool string json
  | CreateTask

text \<open>
  The controller: \<open>self.config\<close> (a dict; a missing key reads as \<open>None\<close>),
  \<open>self.messages\<close>, \<open>self.llm_handler\<close>, and the trace of what it has done.
  \<open>self.mcp_handler\<close> is not a field: a turn only reads it, and what it reads is
  decided by the connection's background task (see \<open>env\<close>).
\<close>

record controller =
  config :: "string \<Rightarrow> string option"
  messages :: "message list"
  llm_handler :: llm_handler
  events :: "event list"

text \<open>
  What a turn meets outside the controller. The time of an observation is the length of
  the trace, so every call has its own: \<open>mcp_state\<close> is the state of
  \<open>self.mcp_handler\<close> then, \<open>completions_create\<close>, \<open>session_list_tools\<close> and
  \<open>session_call_tool\<close> what the endpoint and the tool session answer then,
  \<open>azure_deployment\<close> what \<open>self.gui.get_azure_config()["deployment"]\<close> reads.
\<close>

record env =
  lib :: runtime
  mcp_state :: "nat \<Rightarrow> mcp_handler"
  completions_create :: "nat \<Rightarrow> request \<Rightarrow> exn + completion"
  session_list_tools :: "nat \<Rightarrow> exn + tool list"
  session_call_tool :: "nat \<Rightarrow> string \<Rightarrow> json \<Rightarrow> exn + content_item list"
  azure_deployment :: "nat \<Rightarrow> string"

definition now :: "controller \<Rightarrow> nat" where
  "now s = length (events s)"

definition update_output :: "string \<Rightarrow> string \<Rightarrow> controller \<Rightarrow> controller" where
  "update_output text r s = s\<lparr>events := events s @ [Output text r]\<rparr>"

definition update_status :: "string \<Rightarrow> controller \<Rightarrow> controller" where
  "update_status text s = s\<lparr>events := events s @ [Status text]\<rparr>"

text \<open>\<open>self.messages.append(m)\<close>.\<close>

definition append_message :: "message \<Rightarrow> controller \<Rightarrow> controller" where
  "append_message m s = s\<lparr>messages := messages s @ [m]\<rparr>"

text \<open>\<open>_handle_handler_update\<close>, the callback the handler of the tool session is given.\<close>

definition handle_handler_update :: "string \<Rightarrow> string \<Rightarrow> controller \<Rightarrow> controller" where
  "handle_handler_update msg r s =
     (if r = ''status'' then update_status msg s else update_output msg r s)"

text \<open>The effects of a call into the handler, as the controller's trace records them.\<close>

fun apply_effect :: "effect \<Rightarrow> controller \<Rightarrow> controller" where
  "apply_effect (Update msg r) s = handle_handler_update msg r s"
| "apply_effect SessionListTools s = s\<lparr>events := events s @ [ListTools]\<rparr>"
| "apply_effect (SessionCallTool tool arguments) s =
     s\<lparr>events := events s @ [CallTool tool arguments]\<rparr>"

definition system_message :: message where
  "system_message =
     \<lparr>role = ''system'', content = Bound SYSTEM_PROMPT, tool_calls = Absent,
      tool_call_id = Absent, name = Absent, other_items = []\<rparr>"

definition user_message :: "string \<Rightarrow> message" where
  "user_message user_input =
     \<lparr>role = ''user'', content = Bound user_input, tool_calls = Absent,
      tool_call_id = Absent, name = Absent, other_items = []\<rparr>"

text \<open>The dict \<open>{"tool_call_id": ..., "role": "tool", "name": ..., "content": ...}\<close>.\<close>

definition tool_message :: "string \<Rightarrow> string \<Rightarrow> string \<Rightarrow> message" where
  "tool_message tcid fname text =
     \<lparr>role = ''tool'', content = Bound text, tool_calls = Absent,
      tool_call_id = Bound tcid, name = Bound fname, other_items = []\<rparr>"

text \<open>
  \<open>_initialize_llm_from_config\<close> and \<open>AppController.__init__\<close>. An exception that
  leaves \<open>initialize\<close> leaves the constructor: there is no controller then.
\<close>

definition initialize_llm_from_config ::
  "(azure_client \<Rightarrow> exn + azure_client) \<Rightarrow> controller \<Rightarrow> exn + controller" where
  "initialize_llm_from_config AzureOpenAI s =
     (case initialize (config s ''api_key'') (config s ''endpoint'') AzureOpenAI (llm_handler s) of
        Inl e \<Rightarrow> Inl e
      | Inr (h, success, msg) \<Rightarrow>
          (let s = update_output msg ''system'' (s\<lparr>llm_handler := h\<rparr>)
           in Inr (if \<not> success then update_status ''LLM Init Failed'' s
                   else update_status ''LLM Ready'' s)))"

definition AppController ::
  "(string \<Rightarrow> string option) \<Rightarrow> (azure_client \<Rightarrow> exn + azure_client) \<Rightarrow> exn + controller" where
  "AppController APP_CONFIG AzureOpenAI =
     initialize_llm_from_config AzureOpenAI
       \<lparr>config = APP_CONFIG, messages = [system_message], llm_handler = LLMHandler, events = []\<rparr>"

text \<open>
  \<open>update_azure_config\<close>. When an exception leaves \<open>initialize\<close> it leaves this method
  too (the first component), after the configuration and the status were written.
\<close>

definition update_azure_config ::
  "(azure_client \<Rightarrow> exn + azure_client) \<Rightarrow> string option \<Rightarrow> string option \<Rightarrow> string option
    \<Rightarrow> controller \<Rightarrow> exn option \<times> controller" where
  "update_azure_config AzureOpenAI key endpoint deployment s =
     (let s = s\<lparr>config := (config s)(''api_key'' := key, ''endpoint'' := endpoint,
                                       ''deployment'' := deployment)\<rparr>;
          s = update_status ''Re-initializing LLM...'' s
      in case initialize key endpoint AzureOpenAI (llm_handler s) of
           Inl e \<Rightarrow> (Some e, s)
         | Inr (h, success, msg) \<Rightarrow>
             (let s = update_output msg ''system'' (s\<lparr>llm_handler := h\<rparr>)
              in (None, update_status (if success then ''LLM Ready'' else ''LLM Init Failed'') s)))"

text \<open>\<open>send_message_to_llm\<close>.\<close>

definition send_message_to_llm :: "string \<Rightarrow> controller \<Rightarrow> controller" where
  "send_message_to_llm user_input s =
     (if user_input = [] then s
      else
        (let s = update_output user_input ''user'' s;
             s = append_message (user_message user_input) s
         in if \<not> is_initialized (llm_handler s)
            then
              (let s = update_output
                         ''Azure OpenAI client is not initialized. Please check settings.''
                         ''system'' s
               in if messages s \<noteq> [] \<and> role (last (messages s)) = ''user''
                  then s\<lparr>messages := butlast (messages s)\<rparr>
                  else s)
            else
              (let s = update_status ''Processing...'' s
               in s\<lparr>events := events s @ [CreateTask]\<rparr>)))"

text \<open>\<open>str(n)\<close> of a natural number, for the f-strings that print one.\<close>

fun str_nat :: "nat \<Rightarrow> string" where
  "str_nat n =
     (if n < 10 then [char_of (48 + n)] else str_nat (n div 10) @ [char_of (48 + n mod 10)])"

text \<open>
  The dict appended to the history for a response: \<open>model_dump(exclude_unset=True)\<close>
  where the object has it (the fields that were set, a field set to \<open>None\<close> included),
  the manual conversion (with its \<open>None\<close> values dropped) otherwise. \<open>model_dump\<close> is
  called on the library's message object only; its other two equations make the
  function total and are never used.
\<close>

fun model_dump :: "response_message \<Rightarrow> message" where
  "model_dump (ChatCompletionMessage r c tcs others) =
     \<lparr>role = r, content = c, tool_calls = tcs, tool_call_id = Absent, name = Absent,
      other_items = others\<rparr>"
| "model_dump (SimpleNamespace r c tcs) =
     \<lparr>role = r, content = binding_of c, tool_calls = binding_of tcs, tool_call_id = Absent,
      name = Absent, other_items = []\<rparr>"
| "model_dump (Opaque text) =
     \<lparr>role = ''assistant'', content = Absent, tool_calls = Absent, tool_call_id = Absent,
      name = Absent, other_items = []\<rparr>"

definition response_dump :: "response_message \<Rightarrow> message" where
  "response_dump response =
     (if hasattr_model_dump response then model_dump response
      else \<lparr>role = getattr_role response, content = binding_of (getattr_content response),
            tool_calls = binding_of (getattr_tool_calls response), tool_call_id = Absent,
            name = Absent, other_items = []\<rparr>)"

text \<open>
  Step 1 of \<open>_process_llm_interaction\<close>: the tool definitions for this turn, or the
  exception that leaves \<open>list_tools\<close>. Nothing is awaited between \<open>is_connected()\<close> and
  the same test inside \<open>list_tools\<close>, so both read one state of the handler.
\<close>

definition refresh_tools :: "env \<Rightarrow> controller \<Rightarrow> (exn + json list) \<times> controller" where
  "refresh_tools e s =
     (let h = mcp_state e (now s)
      in if is_connected h
         then
           (let (fx, listed) = list_tools (lib e) h (session_list_tools e (now s)) False;
                s = fold apply_effect fx s
            in case listed of
                 Inl ex \<Rightarrow> (Inl ex, s)
               | Inr current_tools \<Rightarrow>
                   if truthy_list current_tools
                   then (Inr (format_tools_for_openai current_tools), s)
                   else (Inr [],
                         update_output
                           ''Connected to MCP, but no tools found or error listing tools.''
                           ''system'' s))
         else (Inr [],
               update_output ''Not connected to MCP server. Proceeding without tools.''
                 ''system'' s))"

text \<open>The loop over \<open>tool_calls\<close> taken when the handler is not connected.\<close>

fun answer_not_connected :: "runtime \<Rightarrow> tool_call list \<Rightarrow> controller \<Rightarrow> controller" where
  "answer_not_connected rt [] s = s"
| "answer_not_connected rt (tc # rest) s =
     answer_not_connected rt rest
       (append_message
          (tool_message (call_id tc) (function_name tc)
             (json_dumps rt (error_payload ''MCP server not connected.'')))
          s)"

text \<open>
  The body of the loop over \<open>tool_calls\<close> taken when the handler is connected: one tool
  call. The first component is an exception that leaves the body: one that leaves
  \<open>call_tool\<close>, or one that \<open>json.loads\<close> raises and that is no \<open>JSONDecodeError\<close>.
\<close>

definition execute_tool_call :: "env \<Rightarrow> tool_call \<Rightarrow> controller \<Rightarrow> exn option \<times> controller" where
  "execute_tool_call e tc s =
     (let fname = function_name tc
      in case json_loads (lib e) (function_arguments tc) of
           Inl ex \<Rightarrow>
             if isinstance_JSONDecodeError ex
             then
               (let s = update_output
                          (''Error decoding arguments for tool '' @ fname @ '': '' @
                           function_arguments tc) ''system'' s;
                    tool_response_content =
                      json_dumps (lib e) (error_payload ''Invalid arguments JSON'')
                in (None,
                    append_message (tool_message (call_id tc) fname tool_response_content) s))
             else (Some ex, s)
         | Inr function_args \<Rightarrow>
             (let s = update_output
                        (''Tool Call:\<newline>  Name: '' @ fname @ ''\<newline>  Args: '' @
                         json_dumps_indent (lib e) function_args) ''tool_call'' s;
                  (fx, called) =
                    call_tool (lib e) (mcp_state e (now s))
                      (session_call_tool e (now s) fname function_args) fname function_args;
                  s = fold apply_effect fx s
              in case called of
                   Inl ex \<Rightarrow> (Some ex, s)
                 | Inr tool_result \<Rightarrow>
                     (let tool_response_content = json_dumps (lib e) tool_result;
                          s = update_output
                                (''Tool Response:\<newline>'' @
                                 json_dumps_indent (lib e) tool_result) ''tool_response'' s
                      in (None,
                          append_message
                            (tool_message (call_id tc) fname tool_response_content) s))))"

fun execute_tool_calls :: "env \<Rightarrow> tool_call list \<Rightarrow> controller \<Rightarrow> exn option \<times> controller" where
  "execute_tool_calls e [] s = (None, s)"
| "execute_tool_calls e (tc # rest) s =
     (case execute_tool_call e tc s of
        (Some ex, s') \<Rightarrow> (Some ex, s')
      | (None, s') \<Rightarrow> execute_tool_calls e rest s')"

text \<open>
  How one pass through the body of the \<open>while\<close> loop ends: at its end or at \<open>continue\<close>
  (\<open>Next\<close>), at a \<open>break\<close>, or by an exception.
\<close>

datatype flow = Next | Break | Raised exn

text \<open>
  The body of the \<open>while\<close> loop from the test of the response on: what the loop does
  with the message \<open>get_completion\<close> returned.
\<close>

definition handle_response :: "env \<Rightarrow> response_message \<Rightarrow> controller \<Rightarrow> flow \<times> controller" where
  "handle_response e response_message s =
     (if \<not> hasattr_role response_message
      then (Break,
            update_output
              (''Failed to get LLM response: '' @
               (case response_message of Opaque text \<Rightarrow> text | _ \<Rightarrow> []))
              ''system'' s)
      else
        (let dump = response_dump response_message;
             s = (if truthy_str (getattr_content response_message)
                  then update_output (the (getattr_content response_message)) ''assistant'' s
                  else s);
             tcs = getattr_tool_calls response_message
         in if \<not> truthy_list tcs
            then (Break,
                  (if \<not> truthy_str (getattr_content response_message)
                   then update_output ''(No text response and no tool call)'' ''system'' s
                   else s))
            else if \<not> truthy_binding (tool_calls dump)
                    \<and> \<not> truthy_str (getattr_content response_message)
            then (Break,
                  update_output ''(Assistant message has no content or tool calls)''
                    ''system'' s)
            else
              (let s = (if truthy_binding (tool_calls dump)
                           \<and> (messages s = [] \<or> last (messages s) \<noteq> dump)
                        then append_message dump s
                        else s)
               in if \<not> is_connected (mcp_state e (now s))
                  then (Next,
                        answer_not_connected (lib e) (the tcs)
                          (update_output
                             ''LLM requested tool call, but not connected to MCP server.''
                             ''system'' s))
                  else
                    (case execute_tool_calls e (the tcs) s of
                       (Some ex, s') \<Rightarrow> (Raised ex, s')
                     | (None, s') \<Rightarrow> (Next, s')))))"

text \<open>
  The body of the \<open>while\<close> loop, after \<open>iterations += 1\<close>; \<open>iterations\<close> is the
  incremented counter.
\<close>

definition llm_iteration :: "env \<Rightarrow> json list \<Rightarrow> nat \<Rightarrow> controller \<Rightarrow> flow \<times> controller" where
  "llm_iteration e openai_tool_definitions iterations s =
     (let s = update_status (''LLM Call '' @ str_nat iterations @ ''...'') s;
          (sent, reply) =
            get_completion (llm_handler s) (completions_create e (now s))
              (azure_deployment e (now s)) (messages s)
              (if openai_tool_definitions \<noteq> [] then Some openai_tool_definitions else None);
          s = s\<lparr>events := events s @ map Create sent\<rparr>
      in case reply of
           Inl ex \<Rightarrow> (Raised ex, s)
         | Inr response_message \<Rightarrow> handle_response e response_message s)"

text \<open>
  The \<open>while\<close> loop: the exception that left it (if any), the counter and the
  controller when it is left.
\<close>

function llm_loop ::
  "env \<Rightarrow> json list \<Rightarrow> nat \<Rightarrow> nat \<Rightarrow> controller \<Rightarrow> exn option \<times> nat \<times> controller" where
  "llm_loop e openai_tool_definitions max_iterations iterations s =
     (if iterations < max_iterations
      then
        (case llm_iteration e openai_tool_definitions (iterations + 1) s of
           (Next, s') \<Rightarrow> llm_loop e openai_tool_definitions max_iterations (iterations + 1) s'
         | (Break, s') \<Rightarrow> (None, iterations + 1, s')
         | (Raised ex, s') \<Rightarrow> (Some ex, iterations + 1, s'))
      else (None, iterations, s))"
  by pat_completeness auto
termination
  by (relation "measure (\<lambda>(e, ds, max_iterations, iterations, s). max_iterations - iterations)")
    auto

text \<open>The \<open>try\<close> block of \<open>_process_llm_interaction\<close>.\<close>

definition interaction_body :: "env \<Rightarrow> controller \<Rightarrow> exn option \<times> controller" where
  "interaction_body e s =
     (case refresh_tools e s of
        (Inl ex, s) \<Rightarrow> (Some ex, s)
      | (Inr openai_tool_definitions, s) \<Rightarrow>
          (let max_iterations = 5
           in case llm_loop e openai_tool_definitions max_iterations 0 s of
                (Some ex, iterations, s) \<Rightarrow> (Some ex, s)
              | (None, iterations, s) \<Rightarrow>
                  (None,
                   (if iterations \<ge> max_iterations
                    then update_output
                           (''Reached maximum tool call iterations ('' @
                            str_nat max_iterations @ '').'') ''system'' s
                    else s))))"

text \<open>
  \<open>_process_llm_interaction\<close>: the \<open>try\<close> block, the handler of \<open>Exception\<close> and the
  \<open>finally\<close> clause. The first component is an exception that leaves the coroutine.
\<close>

definition process_llm_interaction :: "env \<Rightarrow> controller \<Rightarrow> exn option \<times> controller" where
  "process_llm_interaction e s =
     (case interaction_body e s of
        (None, s) \<Rightarrow> (None, update_status ''Ready'' s)
      | (Some ex, s) \<Rightarrow>
          if isinstance_Exception ex
          then
            (let s = update_output (''Error during LLM processing: '' @ str_exn ex) ''system'' s;
                 s = update_output (''Traceback: '' @ format_exc (lib e) ex) ''system'' s
             in (None, update_status ''Ready'' s))
          else (Some ex, update_status ''Ready'' s))"

text \<open>
  The operations on a controller that touch its history or its completion client, and a
  run of them one after the other.
\<close>

datatype operation =
    SendMessage string
  | ProcessLLM env
  | UpdateAzureConfig "azure_client \<Rightarrow> exn + azure_client" "string option" "string option"
      "string option"

fun perform :: "operation \<Rightarrow> controller \<Rightarrow> controller" where
  "perform (SendMessage user_input) s = send_message_to_llm user_input s"
| "perform (ProcessLLM e) s = snd (process_llm_interaction e s)"
| "perform (UpdateAzureConfig AzureOpenAI key endpoint deployment) s =
     snd (update_azure_config AzureOpenAI key endpoint deployment s)"

fun run :: "operation list \<Rightarrow> controller \<Rightarrow> controller" where
  "run [] s = s"
| "run (x # xs) s = run xs (perform x s)"

section \<open>Vocabulary of the properties\<close>

text \<open>The events that reach the network: the completion endpoint or the tool session.\<close>

fun is_network :: "event \<Rightarrow> bool" where
  "is_network (Create req) = True"
| "is_network ListTools = True"
| "is_network (CallTool tool arguments) = True"
| "is_network ev = False"

fun is_create :: "event \<Rightarrow> bool" where
  "is_create (Create req) = True"
| "is_create ev = False"


text \<open>The conversation a request carries.\<close>

fun request_messages :: "request \<Rightarrow> message list" where
  "request_messages (WithTools deployment msgs tools) = msgs"
| "request_messages (Plain deployment msgs) = msgs"

text \<open>The notice of the iteration ceiling, and the status event of a closed connection.\<close>

definition maximum_iterations_notice :: event where
  "maximum_iterations_notice = Output ''Reached maximum tool call iterations (5).'' ''system''"

definition disconnected_status :: effect where
  "disconnected_status = Update ''Disconnected'' ''status''"

text \<open>What identifies a tool-role message: its role, the call it answers, the tool's name.\<close>

definition answers :: "tool_call \<Rightarrow> message \<Rightarrow> bool" where
  "answers tc m =
     (role m = ''tool'' \<and> tool_call_id m = Bound (call_id tc)
      \<and> name m = Bound (function_name tc))"

text \<open>Whether an item of a tool result is text.\<close>

fun is_text :: "content_item \<Rightarrow> bool" where
  "is_text (TextContent text) = True"
| "is_text item = False"


text \<open>
  The tool-role message for a request whose call is made at time \<open>t\<close>: it carries the
  request's id and function name, and as content the dump of the decode error when the
  arguments do not decode, of what \<open>call_tool\<close> returns for the function name and the
  decoded arguments otherwise. There is none when an exception leaves \<open>json.loads\<close> or
  \<open>call_tool\<close>. \<open>answer_for e tc m\<close>: \<open>m\<close> is that message at some time.
\<close>

definition tool_answer :: "env \<Rightarrow> nat \<Rightarrow> tool_call \<Rightarrow> message option" where
  "tool_answer e t tc =
     (case json_loads (lib e) (function_arguments tc) of
        Inl ex \<Rightarrow>
          if isinstance_JSONDecodeError ex
          then Some (tool_message (call_id tc) (function_name tc)
                       (json_dumps (lib e) (error_payload ''Invalid arguments JSON'')))
          else None
      | Inr function_args \<Rightarrow>
          (case snd (call_tool (lib e) (mcp_state e t)
                       (session_call_tool e t (function_name tc) function_args)
                       (function_name tc) function_args) of
             Inl ex \<Rightarrow> None
           | Inr tool_result \<Rightarrow>
               Some (tool_message (call_id tc) (function_name tc)
                       (json_dumps (lib e) tool_result))))"


text \<open>The event the trace records for an effect of the handler.\<close>

fun effect_event :: "effect \<Rightarrow> event" where
  "effect_event (Update msg r) = (if r = ''status'' then Status msg else Output msg r)"
| "effect_event SessionListTools = ListTools"
| "effect_event (SessionCallTool tool arguments) = CallTool tool arguments"

text \<open>The requests to the completion endpoint in a trace, in order.\<close>

definition creates :: "controller \<Rightarrow> event list" where
  "creates s = filter is_create (events s)"

text \<open>
  \<open>grows s s'\<close>: from \<open>s\<close> to \<open>s'\<close> the history and the trace were only appended to, and
  the completion client and the configuration are the same. \<open>quiet s s'\<close>: moreover no
  request went to the completion endpoint.
\<close>

definition grows :: "controller \<Rightarrow> controller \<Rightarrow> bool" where
  "grows s s' =
     (prefix (messages s) (messages s') \<and> prefix (events s) (events s')
      \<and> llm_handler s' = llm_handler s \<and> config s' = config s)"

definition quiet :: "controller \<Rightarrow> controller \<Rightarrow> bool" where
  "quiet s s' = (grows s s' \<and> creates s' = creates s)"

text \<open>
  \<open>bounded_requests k s s'\<close>: from \<open>s\<close> to \<open>s'\<close> the controller grew, at most \<open>k\<close>
  requests went to the completion endpoint, and each carried a conversation that
  begins with the history of \<open>s\<close>.
\<close>

definition bounded_requests :: "nat \<Rightarrow> controller \<Rightarrow> controller \<Rightarrow> bool" where
  "bounded_requests k s s' =
     (grows s s' \<and>
      (\<exists>cs. creates s' = creates s @ cs \<and> length cs \<le> k \<and>
            (\<forall>c \<in> set cs. \<exists>req. c = Create req \<and> prefix (messages s) (request_messages req))))"

section \<open>Fixtures\<close>

text \<open>
  Library functions for concrete runs: \<open>json.loads\<close> decodes the one payload \<open>{}\<close>,
  raises \<open>ValueError\<close> on a payload of more than 4300 characters (below, such a payload
  is one integer literal) and \<open>JSONDecodeError\<close> on any other; \<open>json.dumps\<close> prints an
  error payload with its message and any other value as a fixed text, the other printers
  return a fixed text; \<open>mcp.types\<close> has no \<open>JsonContent\<close>.
\<close>

definition plain_runtime :: runtime where
  "plain_runtime =
     \<lparr>json_loads =
        (\<lambda>text. if 4300 < length text
               then Inl (ValueError ''Exceeds the limit (4300 digits) for integer string conversion'')
               else if text = ''{}'' then Inr (JObj [])
               else Inl (JSONDecodeError ''Expecting value'')),
      json_dumps =
        (\<lambda>v. case dict_get v ''error'' of
               Some (JStr msg) \<Rightarrow> ''{error: '' @ msg @ ''}''
             | _ \<Rightarrow> ''<json>''),
      json_dumps_indent = (\<lambda>v. ''<json>''),
      format_exc = (\<lambda>ex. ''<traceback>''),
      types_has_JsonContent = False\<rparr>"

text \<open>A client, a controller without one and a controller with one.\<close>

definition azure :: azure_client where
  "azure = \<lparr>api_key = ''key'', api_version = ''2024-08-01-preview'',
            azure_endpoint = ''https://example.openai.azure.com''\<rparr>"

definition idle_controller :: controller where
  "idle_controller =
     \<lparr>config = (\<lambda>k. None), messages = [system_message], llm_handler = \<lparr>llm = None\<rparr>,
      events = []\<rparr>"

definition ready_controller :: controller where
  "ready_controller =
     \<lparr>config = (\<lambda>k. None), messages = [system_message], llm_handler = \<lparr>llm = Some azure\<rparr>,
      events = []\<rparr>"

text \<open>
  A turn without a tool connection: the endpoint asks for the tool \<open>search\<close> as long as
  the conversation has fewer than ten messages, and answers in text after that.
\<close>

definition search_call :: tool_call where
  "search_call = \<lparr>call_id = ''call_1'', function_name = ''search'', function_arguments = ''{}''\<rparr>"

definition looping_env :: env where
  "looping_env =
     \<lparr>lib = plain_runtime,
      mcp_state = (\<lambda>t. MCPHandler),
      completions_create =
        (\<lambda>t req. Inr \<lparr>choices =
           [if length (request_messages req) < 10
            then ChatCompletionMessage ''assistant'' Null (Bound [search_call]) []
            else ChatCompletionMessage ''assistant'' (Bound ''The answer is 4.'') Absent []]\<rparr>),
      session_list_tools = (\<lambda>t. Inr []),
      session_call_tool = (\<lambda>t tool arguments. Inr []),
      azure_deployment = (\<lambda>t. ''gpt-4o'')\<rparr>"




text \<open>
  A connected handler. A request whose arguments are one integer of 5000 digits, and a
  response asking for it first; an environment whose endpoint gives that response, and
  one whose endpoint asks for both tools while every call over the session is cancelled.
\<close>

definition live_handler :: mcp_handler where
  "live_handler = \<lparr>session = Some \<lparr>is_closed = False\<rparr>, connection_task = Some Running\<rparr>"





section \<open>Properties of llm\_handler.py\<close>

lemma format_loop_append: "format_loop ts acc = acc @ map openai_tool ts"
  by (induction ts arbitrary: acc) simp_all

lemma format_tools_map: "format_tools_for_openai (Some ts) = map openai_tool ts"
  by (cases ts) (simp_all add: format_tools_for_openai_def format_loop_append)

lemma openai_tool_default:
  assumes "inputSchema t = None \<or> (\<exists>p. inputSchema t = Some p \<and> \<not> isinstance_dict p)"
  shows "dict_get (openai_tool t) ''function'' =
           Some (JObj [(''name'', JStr (tool_name t)),
                       (''description'',
                        (case tool_description t of None \<Rightarrow> JNull | Some d \<Rightarrow> JStr d)),
                       (''parameters'', empty_object_schema)])"
  using assms by (auto simp: openai_tool_def Let_def empty_object_schema_def)

text \<open>
  C8. The catalog of no tools is empty (for the empty list and for \<open>None\<close>). The catalog
  of a list has one definition per descriptor, in order, and wherever a descriptor has
  no \<open>inputSchema\<close> or one that is not a dict, the definition at that position has a
  \<open>function\<close> entry whose \<open>parameters\<close> key is present and bound to the empty-object
  schema.
\<close>

theorem format_tools_default_schema:
  "format_tools_for_openai (Some []) = [] \<and> format_tools_for_openai None = [] \<and>
   length (format_tools_for_openai (Some ts)) = length ts \<and>
   (\<forall>i < length ts.
      (inputSchema (ts ! i) = None \<or> (\<exists>p. inputSchema (ts ! i) = Some p \<and> \<not> isinstance_dict p))
      \<longrightarrow> (\<exists>f. dict_get (format_tools_for_openai (Some ts) ! i) ''function'' = Some f
               \<and> dict_get f ''parameters'' = Some empty_object_schema))"
proof -
  have "\<exists>f. dict_get (format_tools_for_openai (Some ts) ! i) ''function'' = Some f
               \<and> dict_get f ''parameters'' = Some empty_object_schema"
    if "i < length ts"
      and "inputSchema (ts ! i) = None
           \<or> (\<exists>p. inputSchema (ts ! i) = Some p \<and> \<not> isinstance_dict p)"
    for i
    using that by (simp add: format_tools_map openai_tool_default)
  then show ?thesis
    by (simp add: format_tools_map) (simp add: format_tools_for_openai_def)
qed

text \<open>
  A catalog of two descriptors: the first has no schema, the second a string for one.
\<close>

theorem format_tools_default_schema_witness:
  "(let ts = [\<lparr>tool_name = ''search'', tool_description = Some ''Web search'',
               inputSchema = None\<rparr>,
              \<lparr>tool_name = ''maps'', tool_description = None,
               inputSchema = Some (JStr ''oops'')\<rparr>]
    in dict_get (format_tools_for_openai (Some ts) ! 0) ''function'' =
         Some (JObj [(''name'', JStr ''search''), (''description'', JStr ''Web search''),
                     (''parameters'',
                      JObj [(''type'', JStr ''object''), (''properties'', JObj [])])])
     \<and> (\<exists>f. dict_get (format_tools_for_openai (Some ts) ! 1) ''function'' = Some f
            \<and> dict_get f ''parameters'' = Some empty_object_schema))"
  using format_tools_default_schema [of
      "[\<lparr>tool_name = ''search'', tool_description = Some ''Web search'', inputSchema = None\<rparr>,
        \<lparr>tool_name = ''maps'', tool_description = None, inputSchema = Some (JStr ''oops'')\<rparr>]"]
  by (simp add: format_tools_map openai_tool_def empty_object_schema_def)

text \<open>
  C5. With the client initialized, a failure of the endpoint (an exception derived from
  \<open>Exception\<close>, or a reply without choices) does not leave \<open>get_completion\<close>: the result
  is the message with role \<open>assistant\<close>, the error text as content and no tool calls
  (\<open>tool_calls = None\<close>). When the endpoint raises nothing but such exceptions,
  \<open>get_completion\<close> returns a message.
\<close>

theorem get_completion_failure:
  "llm h \<noteq> None \<longrightarrow>
     (create (completion_request deployment msgs tools) = Inl ex \<and> isinstance_Exception ex \<longrightarrow>
        snd (get_completion h create deployment msgs tools) =
          Inr (SimpleNamespace ''assistant''
                 (Some (''Error communicating with LLM: '' @ str_exn ex)) None))
   \<and> (create (completion_request deployment msgs tools) = Inr \<lparr>choices = []\<rparr> \<longrightarrow>
        snd (get_completion h create deployment msgs tools) =
          Inr (SimpleNamespace ''assistant''
                 (Some (''Error communicating with LLM: list index out of range'')) None))
   \<and> ((\<forall>ex'. create (completion_request deployment msgs tools) = Inl ex' \<longrightarrow>
              isinstance_Exception ex') \<longrightarrow>
        (\<exists>m. snd (get_completion h create deployment msgs tools) = Inr m))"
  by (auto simp: get_completion_def Let_def split: sum.splits list.splits)

text \<open>A client whose endpoint raises \<open>APIError\<close>.\<close>

theorem get_completion_failure_witness:
  "llm \<lparr>llm = Some \<lparr>api_key = ''k'', api_version = ''2024-08-01-preview'',
                     azure_endpoint = ''https://example''\<rparr>\<rparr> \<noteq> None
   \<and> isinstance_Exception (APIError ''Connection error.'')
   \<and> snd (get_completion
            \<lparr>llm = Some \<lparr>api_key = ''k'', api_version = ''2024-08-01-preview'',
                         azure_endpoint = ''https://example''\<rparr>\<rparr>
            (\<lambda>req. Inl (APIError ''Connection error.'')) ''gpt'' [] None) =
       Inr (SimpleNamespace ''assistant''
              (Some ''Error communicating with LLM: Connection error.'') None)"
  using get_completion_failure
    [of "\<lparr>llm = Some \<lparr>api_key = ''k'', api_version = ''2024-08-01-preview'',
                       azure_endpoint = ''https://example''\<rparr>\<rparr>"
        "\<lambda>req. Inl (APIError ''Connection error.'')" "''gpt''" "[]" None
        "APIError ''Connection error.''"]
  by simp

section \<open>Properties of mcp\_handler.py\<close>

text \<open>
  C6. \<open>is_connected\<close> holds exactly when the session handle is present and the
  lifecycle task exists and is not done; so it is false for a task that is done, whatever
  the session handle.
\<close>

theorem is_connected_iff:
  "is_connected h = (session h \<noteq> None \<and> (\<exists>t. connection_task h = Some t \<and> \<not> task_done t))
   \<and> (\<forall>t. connection_task h = Some t \<and> task_done t \<longrightarrow> \<not> is_connected h)"
  by (auto simp: is_connected_def)

text \<open>A handler whose task has finished while its session handle is still set.\<close>

theorem is_connected_iff_witness:
  "session \<lparr>session = Some \<lparr>is_closed = False\<rparr>, connection_task = Some Finished\<rparr> \<noteq> None
   \<and> task_done Finished
   \<and> \<not> is_connected \<lparr>session = Some \<lparr>is_closed = False\<rparr>, connection_task = Some Finished\<rparr>"
  using is_connected_iff
    [of "\<lparr>session = Some \<lparr>is_closed = False\<rparr>, connection_task = Some Finished\<rparr>"]
  by simp

lemma serializable_item_raises:
  "serializable_item rt item = Inl ex \<Longrightarrow> isinstance_Exception ex"
  by (auto simp: serializable_item_def missing_JsonContent_def
      split: content_item.splits if_splits option.splits)

lemma serialize_loop_raises:
  "serialize_loop rt items acc = Inl ex \<Longrightarrow> isinstance_Exception ex"
  by (induction items arbitrary: acc)
    (auto split: sum.splits dest: serializable_item_raises)

lemma call_tool_attempt_raises:
  "call_tool_attempt rt reply = Inl ex \<Longrightarrow> reply = Inl ex \<or> isinstance_Exception ex"
  by (auto simp: call_tool_attempt_def split: sum.splits dest: serialize_loop_raises)

lemma serializable_item_non_text:
  "\<not> is_text item \<Longrightarrow> \<not> types_has_JsonContent rt
    \<Longrightarrow> serializable_item rt item = Inl missing_JsonContent"
  by (cases item) (simp_all add: serializable_item_def)

lemma serializable_item_text:
  "is_text item \<Longrightarrow> \<exists>entry. serializable_item rt item = Inr entry"
  by (cases item) (simp_all add: serializable_item_def)

lemma serialize_loop_non_text:
  "\<exists>item \<in> set items. \<not> is_text item \<Longrightarrow> \<not> types_has_JsonContent rt
    \<Longrightarrow> serialize_loop rt items acc = Inl missing_JsonContent"
proof (induction items arbitrary: acc)
  case Nil
  then show ?case by simp
next
  case (Cons item rest)
  show ?case
  proof (cases "is_text item")
    case True
    then obtain entry where "serializable_item rt item = Inr entry"
      using serializable_item_text by blast
    moreover from True Cons.prems(1) have "\<exists>item \<in> set rest. \<not> is_text item" by auto
    ultimately show ?thesis using Cons.IH Cons.prems(2) by simp
  next
    case False
    with Cons.prems(2) show ?thesis by (simp add: serializable_item_non_text)
  qed
qed

text \<open>
  C4. When the handler is not connected, \<open>call_tool\<close> returns the payload
  \<open>{"error": "Not connected to MCP server."}\<close> and \<open>list_tools\<close> returns \<open>None\<close>, with
  no request sent and no exception. When it is connected, an exception derived from
  \<open>Exception\<close> that is raised anywhere in the \<open>try\<close> block of \<open>call_tool\<close> is logged and
  comes back as \<open>{"error": str(e)}\<close>: when the session's call raises it, and when the
  processing of the result does. The latter happens for every result with an item that
  is not text when \<open>mcp.types\<close> has no \<open>JsonContent\<close>: the payload then holds the text
  of that \<open>AttributeError\<close>. So whenever the session raises nothing but such exceptions,
  \<open>call_tool\<close> returns a payload; it is the normalised result exactly when the block
  completes.
\<close>

theorem call_tool_list_tools_never_raise:
  "(\<not> is_connected h \<longrightarrow>
      call_tool rt h reply tool arguments =
        ([Update ''Not connected to MCP server.'' ''system''],
         Inr (error_payload ''Not connected to MCP server.''))
      \<and> list_tools rt h listing log =
        ([Update ''Not connected to MCP server.'' ''system''], Inr None))
   \<and> (is_connected h \<and> isinstance_Exception ex \<longrightarrow>
        snd (call_tool rt h (Inl ex) tool arguments) = Inr (error_payload (str_exn ex)))
   \<and> ((\<forall>ex'. reply = Inl ex' \<longrightarrow> isinstance_Exception ex') \<longrightarrow>
        (\<exists>payload. snd (call_tool rt h reply tool arguments) = Inr payload))
   \<and> (is_connected h \<and> call_tool_attempt rt reply = Inl ex \<and> isinstance_Exception ex \<longrightarrow>
        call_tool rt h reply tool arguments =
          ([SessionCallTool tool arguments,
            Update (''Error calling tool '' @ [CHR 0x27] @ tool @ [CHR 0x27] @ '': '' @
                    str_exn ex) ''system'',
            Update (format_exc rt ex) ''system''],
           Inr (error_payload (str_exn ex))))
   \<and> (is_connected h \<and> \<not> types_has_JsonContent rt \<and> (\<exists>item \<in> set items. \<not> is_text item) \<longrightarrow>
        snd (call_tool rt h (Inr items) tool arguments) =
          Inr (error_payload (str_exn missing_JsonContent)))
   \<and> (is_connected h \<and> call_tool_attempt rt reply = Inr payload \<longrightarrow>
        call_tool rt h reply tool arguments = ([SessionCallTool tool arguments], Inr payload))"
proof -
  have a: "call_tool rt h reply tool arguments =
        ([Update ''Not connected to MCP server.'' ''system''],
         Inr (error_payload ''Not connected to MCP server.''))
      \<and> list_tools rt h listing log =
        ([Update ''Not connected to MCP server.'' ''system''], Inr None)"
    if "\<not> is_connected h"
    using that by (simp add: call_tool_def list_tools_def)
  have b: "snd (call_tool rt h (Inl ex) tool arguments) = Inr (error_payload (str_exn ex))"
    if "is_connected h" "isinstance_Exception ex"
    using that by (simp add: call_tool_def call_tool_attempt_def)
  have c: "\<exists>payload. snd (call_tool rt h reply tool arguments) = Inr payload"
    if "\<forall>ex'. reply = Inl ex' \<longrightarrow> isinstance_Exception ex'"
  proof (cases "call_tool_attempt rt reply")
    case (Inl ex')
    with call_tool_attempt_raises [of rt reply ex'] that have "isinstance_Exception ex'"
      by blast
    with Inl show ?thesis by (simp add: call_tool_def)
  next
    case (Inr p)
    then show ?thesis by (simp add: call_tool_def)
  qed
  have d: "call_tool rt h reply tool arguments =
          ([SessionCallTool tool arguments,
            Update (''Error calling tool '' @ [CHR 0x27] @ tool @ [CHR 0x27] @ '': '' @
                    str_exn ex) ''system'',
            Update (format_exc rt ex) ''system''],
           Inr (error_payload (str_exn ex)))"
    if "is_connected h" "call_tool_attempt rt reply = Inl ex" "isinstance_Exception ex"
    using that by (simp add: call_tool_def)
  have e: "snd (call_tool rt h (Inr items) tool arguments) =
          Inr (error_payload (str_exn missing_JsonContent))"
    if "is_connected h" "\<not> types_has_JsonContent rt" "\<exists>item \<in> set items. \<not> is_text item"
  proof -
    from that(2,3) have "serialize_loop rt items [] = Inl missing_JsonContent"
      using serialize_loop_non_text by blast
    with that(1) show ?thesis
      by (simp add: call_tool_def call_tool_attempt_def missing_JsonContent_def)
  qed
  have f: "call_tool rt h reply tool arguments = ([SessionCallTool tool arguments], Inr payload)"
    if "is_connected h" "call_tool_attempt rt reply = Inr payload"
    using that by (simp add: call_tool_def)
  from a b c d e f show ?thesis by blast
qed

text \<open>
  A handler that never connected; a connected one whose session raises; a connected one
  whose session returns a text item and an image; one whose session returns text only.
\<close>

theorem call_tool_list_tools_never_raise_witness:
  "\<not> is_connected MCPHandler
   \<and> call_tool plain_runtime MCPHandler (Inr [TextContent ''42'']) ''search'' (JObj []) =
       ([Update ''Not connected to MCP server.'' ''system''],
        Inr (JObj [(''error'', JStr ''Not connected to MCP server.'')]))
   \<and> list_tools plain_runtime MCPHandler (Inr []) False =
       ([Update ''Not connected to MCP server.'' ''system''], Inr None)
   \<and> is_connected \<lparr>session = Some \<lparr>is_closed = False\<rparr>, connection_task = Some Running\<rparr>
   \<and> isinstance_Exception (Exception ''tool failed'')
   \<and> snd (call_tool plain_runtime
            \<lparr>session = Some \<lparr>is_closed = False\<rparr>, connection_task = Some Running\<rparr>
            (Inl (Exception ''tool failed'')) ''search'' (JObj [])) =
       Inr (JObj [(''error'', JStr ''tool failed'')])
   \<and> \<not> types_has_JsonContent plain_runtime
   \<and> \<not> is_text (ImageContent None)
   \<and> call_tool plain_runtime live_handler (Inr [TextContent ''42'', ImageContent None])
        ''search'' (JObj []) =
       ([SessionCallTool ''search'' (JObj []),
         Update (''Error calling tool '' @ [CHR 0x27] @ ''search'' @ [CHR 0x27] @ '': '' @
                 str_exn missing_JsonContent) ''system'',
         Update ''<traceback>'' ''system''],
        Inr (JObj [(''error'', JStr (str_exn missing_JsonContent))]))
   \<and> call_tool plain_runtime live_handler (Inr [TextContent ''42'']) ''search'' (JObj []) =
       ([SessionCallTool ''search'' (JObj [])],
        Inr (JList [JObj [(''type'', JStr ''text''), (''text'', JStr ''42'')]]))"
  using call_tool_list_tools_never_raise
      [of MCPHandler plain_runtime "Inr [TextContent ''42'']" "''search''" "JObj []" "Inr []" False]
    call_tool_list_tools_never_raise
      [of "\<lparr>session = Some \<lparr>is_closed = False\<rparr>, connection_task = Some Running\<rparr>"
          plain_runtime "Inl (Exception ''tool failed'')" "''search''" "JObj []" "Inr []" False
          "Exception ''tool failed''"]
    call_tool_list_tools_never_raise
      [of live_handler plain_runtime "Inr [TextContent ''42'', ImageContent None]" "''search''"
          "JObj []" "Inr []" False missing_JsonContent "[TextContent ''42'', ImageContent None]"]
    call_tool_list_tools_never_raise
      [of live_handler plain_runtime "Inr [TextContent ''42'']" "''search''"
          "JObj []" "Inr []" False _ _ "JList [JObj [(''type'', JStr ''text''), (''text'', JStr ''42'')]]"]
  by (simp add: is_connected_def MCPHandler_def error_payload_def live_handler_def
      plain_runtime_def call_tool_attempt_def serializable_item_def missing_JsonContent_def)

lemma runner_exit_count:
  "count_list (fst (mcp_session_runner_exit rt cause h)) disconnected_status = 1"
  by (cases cause) (simp_all add: mcp_session_runner_exit_def disconnected_status_def)

lemma runner_exit_state:
  "snd (snd (mcp_session_runner_exit rt cause h)) = h\<lparr>session := None, connection_task := None\<rparr>"
  by (simp add: mcp_session_runner_exit_def)

lemma completion_callback_count:
  "count_list (fst (handle_connection_task_completion ended h)) disconnected_status = 1"
  by (auto simp: handle_connection_task_completion_def disconnected_status_def
      split: option.splits exn.splits)

text \<open>
  C7, as the code has it. \<open>disconnect\<close> called while the lifecycle task is suspended
  inside the runner (mid-handshake, say) leaves the session handle and the task
  reference cleared, and the status \<open>Disconnected\<close> is emitted three times: by the
  runner's \<open>finally\<close> clause, by the completion callback, and last by \<open>disconnect\<close>
  itself. For a task that has not started yet it is emitted twice (callback and
  \<open>disconnect\<close>).
\<close>

theorem disconnect_running_task:
  "(connection_task h = Some Running \<longrightarrow>
      session (snd (disconnect rt cause h)) = None
      \<and> connection_task (snd (disconnect rt cause h)) = None
      \<and> count_list (fst (disconnect rt cause h)) disconnected_status = 3
      \<and> last (fst (disconnect rt cause h)) = disconnected_status)
   \<and> (connection_task h = Some NotStarted \<longrightarrow>
      session (snd (disconnect rt cause h)) = None
      \<and> connection_task (snd (disconnect rt cause h)) = None
      \<and> count_list (fst (disconnect rt cause h)) disconnected_status = 2
      \<and> last (fst (disconnect rt cause h)) = disconnected_status)"
proof -
  have cnt: "count_list (xs @ ys) x = count_list xs x + count_list ys x" for xs ys :: "effect list" and x
    by (induction xs) simp_all
  show ?thesis
    using runner_exit_count [of rt cause h]
      completion_callback_count [of "fst (snd (mcp_session_runner_exit rt cause h))"
         "snd (snd (mcp_session_runner_exit rt cause h))"]
      completion_callback_count [of "Some CancelledError" h]
    by (auto simp: disconnect_def cancel_and_await_def Let_def cnt split_beta
        disconnected_status_def)
qed

text \<open>
  C7 as stated (the status is emitted exactly once) fails: connect, let the runner reach
  the handshake, disconnect.
\<close>

theorem disconnect_mid_handshake_counterexample:
  "fst (disconnect plain_runtime CancelledError
          (snd (mcp_session_runner_to_handshake ''server.py'' \<lparr>is_closed = False\<rparr>
                  (snd (connect ''server.py'' MCPHandler))))) =
     [Update ''MCP connection closed.'' ''system'', Update ''Disconnected'' ''status'',
      Update ''MCP connection task was cancelled.'' ''system'', Update ''Disconnected'' ''status'',
      Update ''MCP connection cancelled.'' ''system'', Update ''Disconnected'' ''status'']
   \<and> count_list
        (fst (disconnect plain_runtime CancelledError
               (snd (mcp_session_runner_to_handshake ''server.py'' \<lparr>is_closed = False\<rparr>
                       (snd (connect ''server.py'' MCPHandler))))))
        disconnected_status \<noteq> 1"
  by (simp add: disconnect_def cancel_and_await_def mcp_session_runner_exit_def
      handle_connection_task_completion_def mcp_session_runner_to_handshake_def connect_def
      MCPHandler_def is_connected_def disconnected_status_def)

text \<open>The same run, for the theorem.\<close>

theorem disconnect_running_task_witness:
  "connection_task
     (snd (mcp_session_runner_to_handshake ''server.py'' \<lparr>is_closed = False\<rparr>
             (snd (connect ''server.py'' MCPHandler)))) = Some Running
   \<and> count_list
        (fst (disconnect plain_runtime CancelledError
               (snd (mcp_session_runner_to_handshake ''server.py'' \<lparr>is_closed = False\<rparr>
                       (snd (connect ''server.py'' MCPHandler))))))
        disconnected_status = 3
   \<and> snd (disconnect plain_runtime CancelledError
               (snd (mcp_session_runner_to_handshake ''server.py'' \<lparr>is_closed = False\<rparr>
                       (snd (connect ''server.py'' MCPHandler))))) = MCPHandler"
  using disconnect_running_task [of
      "snd (mcp_session_runner_to_handshake ''server.py'' \<lparr>is_closed = False\<rparr>
             (snd (connect ''server.py'' MCPHandler)))" plain_runtime CancelledError]
  by (simp add: mcp_session_runner_to_handshake_def connect_def MCPHandler_def is_connected_def)

section \<open>Properties of controller.py\<close>

subsection \<open>The trace and the history only grow\<close>

lemma update_output_simps [simp]:
  "messages (update_output text r s) = messages s"
  "events (update_output text r s) = events s @ [Output text r]"
  "llm_handler (update_output text r s) = llm_handler s"
  "config (update_output text r s) = config s"
  by (simp_all add: update_output_def)

lemma update_status_simps [simp]:
  "messages (update_status text s) = messages s"
  "events (update_status text s) = events s @ [Status text]"
  "llm_handler (update_status text s) = llm_handler s"
  "config (update_status text s) = config s"
  by (simp_all add: update_status_def)

lemma append_message_simps [simp]:
  "messages (append_message m s) = messages s @ [m]"
  "events (append_message m s) = events s"
  "llm_handler (append_message m s) = llm_handler s"
  "config (append_message m s) = config s"
  by (simp_all add: append_message_def)

lemma apply_effect_simps [simp]:
  "messages (apply_effect x s) = messages s"
  "events (apply_effect x s) = events s @ [effect_event x]"
  "llm_handler (apply_effect x s) = llm_handler s"
  "config (apply_effect x s) = config s"
  by (cases x; simp add: handle_handler_update_def)+

lemma fold_apply_effect_simps [simp]:
  "messages (fold apply_effect fx s) = messages s"
  "events (fold apply_effect fx s) = events s @ map effect_event fx"
  "llm_handler (fold apply_effect fx s) = llm_handler s"
  "config (fold apply_effect fx s) = config s"
  by (induction fx arbitrary: s) simp_all

lemma grows_refl [simp]: "grows s s"
  by (simp add: grows_def)

lemma grows_trans: "grows s s' \<Longrightarrow> grows s' s'' \<Longrightarrow> grows s s''"
  by (auto simp: grows_def)

lemma quiet_refl [simp]: "quiet s s"
  by (simp add: quiet_def)

lemma quiet_trans: "quiet s s' \<Longrightarrow> quiet s' s'' \<Longrightarrow> quiet s s''"
  by (auto simp: quiet_def intro: grows_trans)

lemma quiet_update_output [simp]: "quiet s (update_output text r s)"
  by (simp add: quiet_def grows_def creates_def)

lemma quiet_update_status [simp]: "quiet s (update_status text s)"
  by (simp add: quiet_def grows_def creates_def)

lemma quiet_append_message [simp]: "quiet s (append_message m s)"
  by (simp add: quiet_def grows_def creates_def)

lemma effect_event_not_create [simp]: "\<not> is_create (effect_event x)"
  by (cases x) simp_all

lemma quiet_fold_apply_effect [simp]: "quiet s (fold apply_effect fx s)"
  by (simp add: quiet_def grows_def creates_def)

lemma quiet_step: "quiet s s' \<Longrightarrow> quiet s' s'' \<Longrightarrow> quiet s s''"
  by (rule quiet_trans)

text \<open>The loop of the disconnected branch.\<close>

lemma answer_not_connected_messages:
  "messages (answer_not_connected rt tcs s) =
     messages s @ map (\<lambda>tc. tool_message (call_id tc) (function_name tc)
                          (json_dumps rt (error_payload ''MCP server not connected.''))) tcs"
  by (induction tcs arbitrary: s) simp_all

lemma answer_not_connected_rest:
  "events (answer_not_connected rt tcs s) = events s"
  "llm_handler (answer_not_connected rt tcs s) = llm_handler s"
  "config (answer_not_connected rt tcs s) = config s"
  by (induction tcs arbitrary: s) simp_all

lemma quiet_answer_not_connected: "quiet s (answer_not_connected rt tcs s)"
  by (simp add: quiet_def grows_def creates_def answer_not_connected_messages
      answer_not_connected_rest)

lemma quiet_execute_tool_call: "quiet s (snd (execute_tool_call e tc s))"
  by (simp add: execute_tool_call_def Let_def split_beta quiet_def grows_def creates_def
      split: option.splits sum.splits)


lemma quiet_execute_tool_calls: "quiet s (snd (execute_tool_calls e tcs s))"
proof (induction tcs arbitrary: s)
  case Nil
  show ?case by simp
next
  case (Cons tc rest)
  have one: "quiet s (snd (execute_tool_call e tc s))"
    by (rule quiet_execute_tool_call)
  show ?case
  proof (cases "execute_tool_call e tc s")
    case (Pair raised s')
    with one have q: "quiet s s'" by simp
    show ?thesis
    proof (cases raised)
      case None
      with Pair q Cons.IH [of s'] show ?thesis
        by (auto intro: quiet_trans)
    next
      case (Some ex)
      with Pair q show ?thesis by simp
    qed
  qed
qed

lemma snd_flow_of_tools:
  "snd (case p of (Some ex, s') \<Rightarrow> (Raised ex, s') | (None, s') \<Rightarrow> (Next, s')) = snd p"
  by (simp split: prod.splits option.splits)

lemma handle_response_cases:
  fixes s :: controller and r :: response_message and e :: env
  assumes "hasattr_role r"
  defines "s1 \<equiv> (if truthy_str (getattr_content r)
                   then update_output (the (getattr_content r)) ''assistant'' s else s)"
  defines "s2 \<equiv> (if truthy_binding (tool_calls (response_dump r))
                      \<and> (messages s1 = [] \<or> last (messages s1) \<noteq> response_dump r)
                   then append_message (response_dump r) s1 else s1)"
  shows "snd (handle_response e r s) = s1
       \<or> snd (handle_response e r s) =
           update_output ''(No text response and no tool call)'' ''system'' s1
       \<or> snd (handle_response e r s) =
           update_output ''(Assistant message has no content or tool calls)'' ''system'' s1
       \<or> snd (handle_response e r s) =
           answer_not_connected (lib e) (the (getattr_tool_calls r))
             (update_output ''LLM requested tool call, but not connected to MCP server.''
                ''system'' s2)
       \<or> snd (handle_response e r s) = snd (execute_tool_calls e (the (getattr_tool_calls r)) s2)"
  using assms(1) unfolding handle_response_def Let_def s1_def s2_def
  by (simp add: snd_flow_of_tools)

lemma quiet_handle_response: "quiet s (snd (handle_response e r s))"
proof (cases "hasattr_role r")
  case False
  then show ?thesis by (simp add: handle_response_def)
next
  case True
  define s1 where "s1 = (if truthy_str (getattr_content r)
                   then update_output (the (getattr_content r)) ''assistant'' s else s)"
  define s2 where "s2 = (if truthy_binding (tool_calls (response_dump r))
                      \<and> (messages s1 = [] \<or> last (messages s1) \<noteq> response_dump r)
                   then append_message (response_dump r) s1 else s1)"
  have q1: "quiet s s1" by (simp add: s1_def)
  have "quiet s1 s2" by (simp add: s2_def)
  with q1 have q2: "quiet s s2" by (rule quiet_trans)
  have a: "quiet s (update_output msg ro s1)" for msg ro
    using q1 quiet_update_output by (rule quiet_trans)
  have b: "quiet s (answer_not_connected rt tcs (update_output msg ro s2))" for rt tcs msg ro
    using q2 quiet_trans [OF quiet_update_output quiet_answer_not_connected]
    by (rule quiet_trans)
  have c: "quiet s (snd (execute_tool_calls e tcs s2))" for tcs
    using q2 quiet_execute_tool_calls by (rule quiet_trans)
  from handle_response_cases [OF True, of e s, folded s1_def s2_def] q1 a b c
  show ?thesis by auto
qed

lemma quiet_bounded: "quiet s s' \<Longrightarrow> bounded_requests k s s'"
  by (simp add: quiet_def bounded_requests_def)

lemma bounded_requests_mono: "bounded_requests j s s' \<Longrightarrow> j \<le> k \<Longrightarrow> bounded_requests k s s'"
  by (auto simp: bounded_requests_def)

lemma bounded_requests_trans:
  assumes "bounded_requests j s s'" and "bounded_requests k s' s''"
  shows "bounded_requests (j + k) s s''"
proof -
  from assms(1) obtain cs where g1: "grows s s'" and c1: "creates s' = creates s @ cs"
    and l1: "length cs \<le> j"
    and p1: "\<forall>c \<in> set cs. \<exists>req. c = Create req \<and> prefix (messages s) (request_messages req)"
    by (auto simp: bounded_requests_def)
  from assms(2) obtain ds where g2: "grows s' s''" and c2: "creates s'' = creates s' @ ds"
    and l2: "length ds \<le> k"
    and p2: "\<forall>c \<in> set ds. \<exists>req. c = Create req \<and> prefix (messages s') (request_messages req)"
    by (auto simp: bounded_requests_def)
  from g1 have pm: "prefix (messages s) (messages s')" by (simp add: grows_def)
  have p2': "\<forall>c \<in> set ds. \<exists>req. c = Create req \<and> prefix (messages s) (request_messages req)"
  proof
    fix c assume "c \<in> set ds"
    with p2 obtain req where "c = Create req" "prefix (messages s') (request_messages req)"
      by blast
    with pm have "prefix (messages s) (request_messages req)"
      by (rule_tac prefix_order.trans)
    with \<open>c = Create req\<close>
    show "\<exists>req. c = Create req \<and> prefix (messages s) (request_messages req)"
      by blast
  qed
  have "creates s'' = creates s @ (cs @ ds)" using c1 c2 by simp
  moreover have "length (cs @ ds) \<le> j + k" using l1 l2 by simp
  moreover have "\<forall>c \<in> set (cs @ ds).
      \<exists>req. c = Create req \<and> prefix (messages s) (request_messages req)"
    using p1 p2' by auto
  moreover have "grows s s''" using g1 g2 by (rule grows_trans)
  ultimately show ?thesis unfolding bounded_requests_def by blast
qed

lemma request_messages_completion_request [simp]:
  "request_messages (completion_request d ms tools) = ms"
  by (simp add: completion_request_def)

lemma get_completion_sent:
  "fst (get_completion h c d ms tools) = []
   \<or> fst (get_completion h c d ms tools) = [completion_request d ms tools]"
  by (simp add: get_completion_def Let_def)

lemma log_requests_bounded:
  assumes "sent = [] \<or> (\<exists>req. sent = [req] \<and> request_messages req = messages s)"
  shows "bounded_requests 1 s (s\<lparr>events := events s @ map Create sent\<rparr>)"
  using assms by (auto simp: bounded_requests_def grows_def creates_def)

lemma llm_iteration_bounded: "bounded_requests 1 s (snd (llm_iteration e d i s))"
proof -
  define s1 where "s1 = update_status (''LLM Call '' @ str_nat i @ ''...'') s"
  define gc where "gc = get_completion (llm_handler s1) (completions_create e (now s1))
              (azure_deployment e (now s1)) (messages s1)
              (if d \<noteq> [] then Some d else None)"
  define s2 where "s2 = s1\<lparr>events := events s1 @ map Create (fst gc)\<rparr>"
  have q1: "bounded_requests 0 s s1" by (simp add: s1_def quiet_bounded)
  have "fst gc = [] \<or> (\<exists>req. fst gc = [req] \<and> request_messages req = messages s1)"
    using get_completion_sent [of "llm_handler s1" "completions_create e (now s1)"
        "azure_deployment e (now s1)" "messages s1" "if d \<noteq> [] then Some d else None"]
    by (auto simp: gc_def)
  then have q2: "bounded_requests 1 s1 s2"
    unfolding s2_def by (rule log_requests_bounded)
  from bounded_requests_trans [OF q1 q2] have q12: "bounded_requests 1 s s2" by simp
  have q3: "bounded_requests 0 s2 (snd (handle_response e r s2))" for r
    by (rule quiet_bounded) (rule quiet_handle_response)
  have eq: "llm_iteration e d i s =
      (case snd gc of Inl ex \<Rightarrow> (Raised ex, s2) | Inr r \<Rightarrow> handle_response e r s2)"
    unfolding llm_iteration_def s2_def gc_def s1_def
    by (simp only: Let_def case_prod_beta)
  show ?thesis
  proof (cases "snd gc")
    case (Inl ex)
    with eq q12 show ?thesis by simp
  next
    case (Inr r)
    with eq bounded_requests_trans [OF q12 q3 [of r]] show ?thesis by simp
  qed
qed

lemma llm_loop_bounded:
  "bounded_requests (mx - it) s (snd (snd (llm_loop e d mx it s)))"
proof (induction e d mx it s rule: llm_loop.induct)
  case (1 e d mx it s)
  show ?case
  proof (cases "it < mx")
    case False
    then show ?thesis by (simp add: quiet_bounded)
  next
    case True
    obtain fl s' where step: "llm_iteration e d (it + 1) s = (fl, s')"
      by (cases "llm_iteration e d (it + 1) s")
    from llm_iteration_bounded [of s e d "it + 1"] step
    have b1: "bounded_requests 1 s s'" by simp
    have unfold: "llm_loop e d mx it s =
        (case fl of
           Next \<Rightarrow> llm_loop e d mx (it + 1) s'
         | Break \<Rightarrow> (None, it + 1, s')
         | Raised ex \<Rightarrow> (Some ex, it + 1, s'))"
      using True step by (simp add: llm_loop.simps [of e d mx it s])
    from True have k: "1 + (mx - (it + 1)) = mx - it" "1 \<le> mx - it" by simp_all
    show ?thesis
    proof (cases fl)
      case Next
      from "1.IH" [OF True step [symmetric] Next]
      have "bounded_requests (mx - (it + 1)) s' (snd (snd (llm_loop e d mx (it + 1) s')))" .
      from bounded_requests_trans [OF b1 this] have
        "bounded_requests (mx - it) s (snd (snd (llm_loop e d mx (it + 1) s')))"
        by (simp only: k)
      with unfold Next show ?thesis by simp
    next
      case Break
      with unfold bounded_requests_mono [OF b1 k(2)] show ?thesis by simp
    next
      case (Raised ex)
      with unfold bounded_requests_mono [OF b1 k(2)] show ?thesis by simp
    qed
  qed
qed


lemma filter_create_effects [simp]: "filter is_create (map effect_event fx) = []"
  by (induction fx) simp_all

lemma quiet_refresh_tools: "quiet s (snd (refresh_tools e s))"
  by (simp add: refresh_tools_def Let_def case_prod_beta quiet_def grows_def creates_def
      split: sum.splits)

lemma interaction_body_bounded: "bounded_requests 5 s (snd (interaction_body e s))"
proof (cases "refresh_tools e s")
  case (Pair listed s1)
  with quiet_refresh_tools [of s e] have q1: "bounded_requests 0 s s1"
    by (simp add: quiet_bounded)
  show ?thesis
  proof (cases listed)
    case (Inl ex)
    with Pair bounded_requests_mono [OF q1, of 5] show ?thesis
      by (simp add: interaction_body_def)
  next
    case (Inr ds)
    obtain raised n s2 where loop: "llm_loop e ds 5 0 s1 = (raised, n, s2)"
      by (cases "llm_loop e ds 5 0 s1") auto
    with llm_loop_bounded [of 5 0 s1 e ds] have q2: "bounded_requests 5 s1 s2" by simp
    from bounded_requests_trans [OF q1 q2] have q12: "bounded_requests 5 s s2" by simp
    have q3: "bounded_requests 5 s (update_output msg ro s2)" for msg ro
      using bounded_requests_trans [OF q12 quiet_bounded [OF quiet_update_output, of 0]]
      by simp
    from Pair Inr loop q12 q3 show ?thesis
      by (cases raised) (simp_all add: interaction_body_def Let_def del: llm_loop.simps)
  qed
qed

lemma process_llm_interaction_bounded:
  "bounded_requests 5 s (snd (process_llm_interaction e s))"
proof (cases "interaction_body e s")
  case (Pair raised s1)
  with interaction_body_bounded [of s e] have q1: "bounded_requests 5 s s1" by simp
  have q: "quiet s1 s2 \<Longrightarrow> bounded_requests 5 s s2" for s2
    using bounded_requests_trans [OF q1 quiet_bounded [of s1 s2 0]] by simp
  have a: "quiet s1 (update_status ''Ready'' s1)" by simp
  have b: "quiet s1 (update_status ''Ready''
             (update_output m2 ''system'' (update_output m1 ''system'' s1)))" for m1 m2
    by (simp add: quiet_def grows_def creates_def)
  from Pair q [OF a] q [OF b] show ?thesis
    by (cases raised) (simp_all add: process_llm_interaction_def Let_def)
qed

lemma send_message_grows: "grows s (send_message_to_llm user_input s)"
  by (simp add: send_message_to_llm_def Let_def grows_def is_initialized_def)

lemma perform_keeps_history: "prefix (messages s) (messages (perform x s))"
proof (cases x)
  case (SendMessage user_input)
  with send_message_grows [of s user_input] show ?thesis by (simp add: grows_def)
next
  case (ProcessLLM e)
  with process_llm_interaction_bounded [of s e] show ?thesis
    by (simp add: bounded_requests_def grows_def)
next
  case (UpdateAzureConfig ctor key endpoint deployment)
  then show ?thesis
    by (simp add: update_azure_config_def Let_def split: sum.splits prod.splits)
qed

lemma run_keeps_history: "prefix (messages s) (messages (run xs s))"
proof (induction xs arbitrary: s)
  case Nil
  show ?case by simp
next
  case (Cons x xs)
  from perform_keeps_history [of s x] Cons.IH [of "perform x s"]
  show ?case by (simp del: perform.simps)
qed

lemma AppController_messages:
  "AppController cfg ctor = Inr s0 \<Longrightarrow> messages s0 = [system_message]"
  by (auto simp: AppController_def initialize_llm_from_config_def Let_def
      split: sum.splits prod.splits if_splits)

subsection \<open>Every requested tool call is answered\<close>


lemma answers_tool_message [simp]:
  "answers tc (tool_message (call_id tc) (function_name tc) body)"
  by (simp add: answers_def tool_message_def)







lemma execute_tool_call_abort:
  "tool_answer e (Suc (now s)) tc = None \<Longrightarrow>
     fst (execute_tool_call e tc s) \<noteq> None
     \<and> messages (snd (execute_tool_call e tc s)) = messages s"
  by (auto simp: tool_answer_def execute_tool_call_def Let_def case_prod_beta now_def
      split: sum.splits if_splits)




subsection \<open>The claims\<close>

text \<open>
  C10. Sending an empty input returns the controller as it was: the same history, the same
  trace (nothing shown, no status set, no task created), the same completion client.
\<close>

theorem send_empty_input_noop: "send_message_to_llm [] s = s"
  by (simp add: send_message_to_llm_def)

text \<open>
  C2. For a non-empty input, \<open>send_message_to_llm\<close> with an initialized client appends
  exactly the user message to the history, shows the input, sets the status and creates
  the task: nothing of it reaches the network, and every request the turn then sends to
  the completion endpoint (at most five) carries a conversation that begins with the
  history and that message. With no client it leaves the history as it was (the appended
  message is popped again), shows the input and the error, and creates no task: no
  catalog is fetched and no completion is asked for.
\<close>

theorem send_message_preflight:
  "user_input \<noteq> [] \<longrightarrow>
     role (user_message user_input) = ''user''
   \<and> (is_initialized (llm_handler s) \<longrightarrow>
        send_message_to_llm user_input s =
          s\<lparr>messages := messages s @ [user_message user_input],
            events := events s @ [Output user_input ''user'', Status ''Processing...'', CreateTask]\<rparr>
        \<and> bounded_requests 5 (send_message_to_llm user_input s)
              (snd (process_llm_interaction e (send_message_to_llm user_input s))))
   \<and> (\<not> is_initialized (llm_handler s) \<longrightarrow>
        send_message_to_llm user_input s =
          s\<lparr>events := events s @
              [Output user_input ''user'',
               Output ''Azure OpenAI client is not initialized. Please check settings.''
                 ''system'']\<rparr>)"
proof -
  have a: "send_message_to_llm user_input s =
          s\<lparr>messages := messages s @ [user_message user_input],
            events := events s @ [Output user_input ''user'', Status ''Processing...'', CreateTask]\<rparr>"
    if "user_input \<noteq> []" "is_initialized (llm_handler s)"
    using that
    by (simp add: send_message_to_llm_def Let_def update_output_def update_status_def
        append_message_def)
  have b: "send_message_to_llm user_input s =
          s\<lparr>events := events s @
              [Output user_input ''user'',
               Output ''Azure OpenAI client is not initialized. Please check settings.''
                 ''system'']\<rparr>"
    if "user_input \<noteq> []" "\<not> is_initialized (llm_handler s)"
    using that
    by (simp add: send_message_to_llm_def Let_def update_output_def update_status_def
        append_message_def user_message_def)
  have c: "bounded_requests 5 (send_message_to_llm user_input s)
              (snd (process_llm_interaction e (send_message_to_llm user_input s)))"
    by (rule process_llm_interaction_bounded)
  have d: "role (user_message user_input) = ''user''"
    by (simp add: user_message_def)
  from a b c d show ?thesis by blast
qed

text \<open>The same input sent to a controller without a client and to one with a client.\<close>

theorem send_message_preflight_witness:
  "send_message_to_llm ''What is 2+2?'' idle_controller =
     idle_controller
       \<lparr>events := [Output ''What is 2+2?'' ''user'',
                    Output ''Azure OpenAI client is not initialized. Please check settings.''
                      ''system'']\<rparr>
   \<and> messages (send_message_to_llm ''What is 2+2?'' idle_controller) = [system_message]
   \<and> filter is_network (events (send_message_to_llm ''What is 2+2?'' idle_controller)) = []
   \<and> is_initialized (llm_handler ready_controller)
   \<and> send_message_to_llm ''What is 2+2?'' ready_controller =
     ready_controller
       \<lparr>messages := [system_message, user_message ''What is 2+2?''],
        events := [Output ''What is 2+2?'' ''user'', Status ''Processing...'', CreateTask]\<rparr>"
  using send_message_preflight [of "''What is 2+2?''" idle_controller looping_env]
    send_message_preflight [of "''What is 2+2?''" ready_controller looping_env]
  by (simp add: idle_controller_def ready_controller_def is_initialized_def)




text \<open>
  C9. No operation of the controller removes a message that was in the history before it:
  the history before is a prefix of the history after (the one \<open>pop\<close>, in
  \<open>send_message_to_llm\<close>, takes back the message appended just before it). So in every
  state reached from a new controller by a run of operations the history is not empty
  and begins with the system prompt.
\<close>

theorem history_begins_with_system_prompt:
  "prefix (messages s) (messages (perform x s))
   \<and> (AppController cfg ctor = Inr s0 \<longrightarrow>
        messages (run xs s0) \<noteq> [] \<and> messages (run xs s0) ! 0 = system_message)"
proof -
  have "messages (run xs s0) \<noteq> [] \<and> messages (run xs s0) ! 0 = system_message"
    if "AppController cfg ctor = Inr s0"
  proof -
    from that have "messages s0 = [system_message]" by (rule AppController_messages)
    with run_keeps_history [of s0 xs] obtain zs
      where "messages (run xs s0) = [system_message] @ zs"
      by (auto simp: prefix_def)
    then show ?thesis by simp
  qed
  with perform_keeps_history show ?thesis by blast
qed

text \<open>
  A controller made without credentials, and an input sent to it: appended, then popped.
\<close>

theorem history_begins_with_system_prompt_witness:
  "AppController (\<lambda>k. None) Inr =
     Inr (idle_controller
            \<lparr>events := [Output ''Missing API key or endpoint'' ''system'',
                         Status ''LLM Init Failed'']\<rparr>)
   \<and> messages (run [SendMessage ''hello'']
        (idle_controller
            \<lparr>events := [Output ''Missing API key or endpoint'' ''system'',
                         Status ''LLM Init Failed'']\<rparr>)) = [system_message]
   \<and> messages (run [SendMessage ''hello'']
        (idle_controller
            \<lparr>events := [Output ''Missing API key or endpoint'' ''system'',
                         Status ''LLM Init Failed'']\<rparr>)) ! 0 = system_message"
  using history_begins_with_system_prompt [of idle_controller "SendMessage ''hello''"
      "\<lambda>k. None" Inr
      "idle_controller
            \<lparr>events := [Output ''Missing API key or endpoint'' ''system'',
                         Status ''LLM Init Failed'']\<rparr>" "[SendMessage ''hello'']"]
  by (simp add: AppController_def initialize_llm_from_config_def initialize_def
      LLMHandler_def idle_controller_def send_message_to_llm_def Let_def is_initialized_def
      update_output_def update_status_def append_message_def user_message_def)

text \<open>
  C1, at a turn whose fifth completion is the final answer. The model asks for a tool
  four times and answers in text the fifth time: the loop is left by \<open>break\<close> with the
  answer shown, and the notice of the iteration ceiling is shown after it all the same,
  because \<open>iterations >= max_iterations\<close> holds after the fifth pass however the loop
  was left. (The trace without the five requests to the endpoint.)
\<close>

theorem notice_after_final_answer:
  "filter (\<lambda>ev. \<not> is_create ev)
     (events (snd (process_llm_interaction looping_env
                     (send_message_to_llm ''What is 2+2?'' ready_controller)))) =
   [Output ''What is 2+2?'' ''user'', Status ''Processing...'', CreateTask,
    Output ''Not connected to MCP server. Proceeding without tools.'' ''system'',
    Status ''LLM Call 1...'',
    Output ''LLM requested tool call, but not connected to MCP server.'' ''system'',
    Status ''LLM Call 2...'',
    Output ''LLM requested tool call, but not connected to MCP server.'' ''system'',
    Status ''LLM Call 3...'',
    Output ''LLM requested tool call, but not connected to MCP server.'' ''system'',
    Status ''LLM Call 4...'',
    Output ''LLM requested tool call, but not connected to MCP server.'' ''system'',
    Status ''LLM Call 5...'', Output ''The answer is 4.'' ''assistant'',
    maximum_iterations_notice,
    Status ''Ready'']"
  by code_simp

end
